theory Spec2Isabelle
  imports Main "HOL-Library.Sublist"
begin

section \<open>Strings as the scripts use them\<close>

text \<open>
  A Python \<open>str\<close> is modelled as a \<open>string\<close>, the list of the bytes of its UTF-8
  encoding (the scripts read their files as UTF-8). Every literal the scripts search
  for is ASCII, and an ASCII byte never occurs inside a multi-byte sequence, so
  searching, replacing, membership and prefix tests on bytes agree with those on code
  points.

  What \<open>str.lower\<close>, \<open>str.strip\<close> and \<open>re.search\<close> do with a character outside ASCII is
  decided by the Unicode tables of the interpreter. The functions of the scripts that
  call them therefore take them as parameters (\<open>py_lower\<close>, \<open>py_strip\<close>, \<open>re_search\<close>),
  and what is proved of such a function for every value of the parameter holds of the
  script. The definitions \<open>lower\<close>, \<open>strip\<close> and \<open>search\<close> of this theory are what the
  three library functions do on a string of ASCII characters; they are used to evaluate
  the functions of the scripts on such strings.
\<close>

definition ascii :: "string \<Rightarrow> bool" where
  "ascii s = list_all (\<lambda>c. (of_char c :: nat) < 128) s"

text \<open>\<open>str.lower\<close> on a string of ASCII characters.\<close>

definition lower_ch :: "char \<Rightarrow> char" where
  "lower_ch c =
     (let n = (of_char c :: nat) in if 65 \<le> n \<and> n \<le> 90 then char_of (n + 32) else c)"

definition lower :: "string \<Rightarrow> string" where
  "lower s = map lower_ch s"

text \<open>The ASCII characters for which \<open>str.isspace\<close> holds: tab, line feed, vertical tab,
  form feed, carriage return, the four separators 28 to 31, and the space; and
  \<open>str.strip\<close> on a string of ASCII characters.\<close>

definition is_space :: "char \<Rightarrow> bool" where
  "is_space c = (let n = (of_char c :: nat) in (9 \<le> n \<and> n \<le> 13) \<or> (28 \<le> n \<and> n \<le> 32))"

definition strip :: "string \<Rightarrow> string" where
  "strip s = rev (dropWhile is_space (rev (dropWhile is_space s)))"

definition startswith :: "string \<Rightarrow> string \<Rightarrow> bool" where
  "startswith s p = (take (length p) s = p)"

text \<open>\<open>s.replace(old, new)\<close> for a non-empty \<open>old\<close>: the occurrences are found from the
  left and do not overlap.\<close>

fun replace_from :: "string \<Rightarrow> string \<Rightarrow> string \<Rightarrow> string" where
  "replace_from old new [] = []"
| "replace_from old new (c # cs) =
     (if old \<noteq> [] \<and> startswith (c # cs) old
      then new @ replace_from old new (drop (length old) (c # cs))
      else c # replace_from old new cs)"

text \<open>With an empty \<open>old\<close>, Python puts \<open>new\<close> before every character and at the end.\<close>

definition replace :: "string \<Rightarrow> string \<Rightarrow> string \<Rightarrow> string" where
  "replace s old new =
     (if old = [] then new @ concat (map (\<lambda>c. c # new) s) else replace_from old new s)"

text \<open>\<open>w in s\<close> on strings: \<open>w\<close> occurs in \<open>s\<close> as a contiguous run.\<close>

fun contains :: "string \<Rightarrow> string \<Rightarrow> bool" where
  "contains [] w = (w = [])"
| "contains (c # cs) w = (startswith (c # cs) w \<or> contains cs w)"

section \<open>main.py: the domain of a company name\<close>

definition strip_list :: "string list" where
  "strip_list = ['' '', '','', ''.'', ''inc'', ''llc'', ''the'', ''-'']"

definition extract_domain :: "(string \<Rightarrow> string) \<Rightarrow> string \<Rightarrow> string" where
  "extract_domain py_lower company_name =
     foldl (\<lambda>domain remove. replace domain remove '''') (py_lower company_name) strip_list
     @ ''.com''"

section \<open>Records, override entries and errors\<close>

text \<open>
  A company record is the \<open>dict\<close> that \<open>csv.DictReader\<close> yields for a row: a finite map
  from column names to strings, in which a column that the file does not have is a missing
  key. (A row shorter than the header, whose missing cells \<open>DictReader\<close> fills with
  \<open>None\<close>, is not a record in this sense.) An entry of an override table is a dictionary
  literal with a fixed set of keys: five in \<open>batch_extract_founders.py\<close>, nine in
  \<open>main.py\<close> and \<open>update_with_real_founders.py\<close>. The tables are parameters of the
  functions that read them; the three tables of the scripts are given as well.
\<close>

type_synonym company = "string \<rightharpoonup> string"

record founder_basic =
  founder_first :: string
  founder_last :: string
  founder_email :: string
  founder_linkedin :: string
  website :: string

record founder_data = founder_basic +
  jobs :: string
  funding_stage :: string
  amount_raised :: string
  date_raised :: string

datatype py_error = KeyError | TypeError

text \<open>\<open>d.get(k, default)\<close>.\<close>

definition get :: "company \<Rightarrow> string \<Rightarrow> string \<Rightarrow> string" where
  "get d k dflt = (case d k of None \<Rightarrow> dflt | Some v \<Rightarrow> v)"

text \<open>The two quality markers: a check mark (U+2705) before \<open>REAL\<close>, a robot face
  (U+1F916) before \<open>PATTERN\<close>, in UTF-8.\<close>

definition REAL_MARK :: string where
  "REAL_MARK = [CHR 0xE2, CHR 0x9C, CHR 0x85] @ '' REAL''"

definition PATTERN_MARK :: string where
  "PATTERN_MARK = [CHR 0xF0, CHR 0x9F, CHR 0xA4, CHR 0x96] @ '' PATTERN''"

section \<open>main.py: enrich_company\<close>

text \<open>The chain of \<open>if\<close> and \<open>elif\<close> by which the pattern branch of \<open>enrich_company\<close> picks
  the job listing from the lowercased description.\<close>

definition pattern_jobs :: "string \<Rightarrow> string" where
  "pattern_jobs desc_lower =
     (if list_ex (contains desc_lower) [''ai'', ''ml'', ''machine learning'', ''llm'']
      then ''ML Engineering Intern, AI Research Intern''
      else if list_ex (contains desc_lower) [''developer'', ''code'', ''software'']
      then ''Software Engineering Intern, Product Engineering Intern''
      else if list_ex (contains desc_lower) [''data'', ''analytics'']
      then ''Data Science Intern, Analytics Intern''
      else ''Software Engineering Intern, Product Intern'')"

definition enrich_company ::
  "(string \<Rightarrow> string) \<Rightarrow> (string \<rightharpoonup> founder_data) \<Rightarrow> company \<Rightarrow> py_error + company" where
  "enrich_company py_lower REAL_FOUNDERS company =
     (case company ''Company_Name'' of
        None \<Rightarrow> Inl KeyError
      | Some company_name \<Rightarrow>
          (case REAL_FOUNDERS company_name of
             Some data \<Rightarrow>
               Inr (company
                 (''founder_first_name'' \<mapsto> founder_first data,
                  ''founder_last_name'' \<mapsto> founder_last data,
                  ''founder_email'' \<mapsto> founder_email data,
                  ''founder_linkedin'' \<mapsto> founder_linkedin data,
                  ''website'' \<mapsto> website data,
                  ''job_openings'' \<mapsto> jobs data,
                  ''funding_stage'' \<mapsto> funding_stage data,
                  ''amount_raised'' \<mapsto> amount_raised data,
                  ''date_raised'' \<mapsto> date_raised data,
                  ''data_quality'' \<mapsto> REAL_MARK))
           | None \<Rightarrow>
               (let domain = extract_domain py_lower company_name in
                case company ''company_description'' of
                  None \<Rightarrow> Inl KeyError
                | Some description \<Rightarrow>
                    (let desc_lower = py_lower description;
                         jobs = pattern_jobs desc_lower
                     in Inr (company
                          (''founder_first_name'' \<mapsto> ''Team'',
                           ''founder_last_name'' \<mapsto> [],
                           ''founder_email'' \<mapsto> ''hello@'' @ domain,
                           ''founder_linkedin'' \<mapsto> [],
                           ''website'' \<mapsto> domain,
                           ''job_openings'' \<mapsto> jobs,
                           ''funding_stage'' \<mapsto> ''Seed'',
                           ''amount_raised'' \<mapsto> ''$1.5M'',
                           ''date_raised'' \<mapsto> ''Summer 2025'',
                           ''data_quality'' \<mapsto> PATTERN_MARK))))))"

text \<open>The table \<open>REAL_FOUNDERS\<close> of \<open>main.py\<close>, entry by entry.\<close>

definition REAL_FOUNDERS_entries :: "(string \<times> founder_data) list" where
  "REAL_FOUNDERS_entries =
  [(''F2'',
    \<lparr>founder_first = ''Don'', founder_last = ''Muir'',
     founder_email = ''don@f2.com'',
     founder_linkedin = ''linkedin.com/in/don-muir'',
     website = ''f2.com'',
     jobs = ''ML Engineering Intern, Data Science Intern'',
     funding_stage = ''Seed'', amount_raised = ''$20M'', date_raised = ''Summer 2025''\<rparr>),
   (''Nox Metals'',
    \<lparr>founder_first = ''Zane'', founder_last = ''Hengsperger'',
     founder_email = ''zane@noxmetals.co'',
     founder_linkedin = ''linkedin.com/in/zanehh'',
     website = ''noxmetals.co'',
     jobs = ''Founding Software Engineer, Software Engineer'',
     funding_stage = ''Seed'', amount_raised = ''$2M'', date_raised = ''Summer 2025''\<rparr>),
   (''Paloma'',
    \<lparr>founder_first = ''Sarah'', founder_last = ''Chen'',
     founder_email = ''sarah@paloma.ai'',
     founder_linkedin = ''linkedin.com/in/sarahchen'',
     website = ''paloma.ai'',
     jobs = ''Product Engineer, Sales Operations Specialist'',
     funding_stage = ''Seed'', amount_raised = ''$3M'', date_raised = ''Summer 2025''\<rparr>),
   (''Luminal'',
    \<lparr>founder_first = ''Alex'', founder_last = ''Martinez'',
     founder_email = ''alex@luminal.ai'',
     founder_linkedin = ''linkedin.com/in/alexmartinez'',
     website = ''luminal.ai'',
     jobs = ''ML Infrastructure Engineer, Systems Engineer'',
     funding_stage = ''Seed'', amount_raised = ''$4M'', date_raised = ''Summer 2025''\<rparr>),
   (''Metis'',
    \<lparr>founder_first = ''James'', founder_last = ''Park'',
     founder_email = ''james@metis.ai'',
     founder_linkedin = ''linkedin.com/in/jamespark'',
     website = ''metis.ai'',
     jobs = ''Infrastructure Engineer, AI Engineer'',
     funding_stage = ''Seed'', amount_raised = ''$5M'', date_raised = ''Summer 2025''\<rparr>),
   (''Modelence'',
    \<lparr>founder_first = ''Emily'', founder_last = ''Rodriguez'',
     founder_email = ''emily@modelence.com'',
     founder_linkedin = ''linkedin.com/in/emilyrodriguez'',
     website = ''modelence.com'',
     jobs = ''Full Stack Engineer, DevOps Engineer'',
     funding_stage = ''Seed'', amount_raised = ''$3.5M'', date_raised = ''Summer 2025''\<rparr>),
   (''Kernel'',
    \<lparr>founder_first = ''David'', founder_last = ''Kim'',
     founder_email = ''david@kernel.sh'',
     founder_linkedin = ''linkedin.com/in/davidkim'',
     website = ''kernel.sh'',
     jobs = ''Infrastructure Engineer, Browser Engineer'',
     funding_stage = ''Seed'', amount_raised = ''$6M'', date_raised = ''Summer 2025''\<rparr>),
   (''Outrove'',
    \<lparr>founder_first = ''Rachel'', founder_last = ''Thompson'',
     founder_email = ''rachel@outrove.com'',
     founder_linkedin = ''linkedin.com/in/rachelthompson'',
     website = ''outrove.com'',
     jobs = ''AI Engineer, Recruiting Specialist'',
     funding_stage = ''Seed'', amount_raised = ''$2.5M'', date_raised = ''Summer 2025''\<rparr>),
   (''Interfere'',
    \<lparr>founder_first = ''Michael'', founder_last = ''Anderson'',
     founder_email = ''michael@interfere.dev'',
     founder_linkedin = ''linkedin.com/in/michaelanderson'',
     website = ''interfere.dev'',
     jobs = ''Software Engineer, QA Engineer'',
     funding_stage = ''Seed'', amount_raised = ''$3M'', date_raised = ''Summer 2025''\<rparr>),
   (''stagewise'',
    \<lparr>founder_first = ''Priya'', founder_last = ''Patel'',
     founder_email = ''priya@stagewise.io'',
     founder_linkedin = ''linkedin.com/in/priyapatel'',
     website = ''stagewise.io'',
     jobs = ''Frontend Engineer, AI Engineer'',
     funding_stage = ''Seed'', amount_raised = ''$2.8M'', date_raised = ''Summer 2025''\<rparr>),
   (''Okibi'',
    \<lparr>founder_first = ''Chris'', founder_last = ''Wu'',
     founder_email = ''chris@okibi.ai'',
     founder_linkedin = ''linkedin.com/in/chriswu'',
     website = ''okibi.ai'',
     jobs = ''AI Engineer, Product Engineer'',
     funding_stage = ''Seed'', amount_raised = ''$4M'', date_raised = ''Summer 2025''\<rparr>),
   (''Pally'',
    \<lparr>founder_first = ''Jessica'', founder_last = ''Lee'',
     founder_email = ''jessica@pally.app'',
     founder_linkedin = ''linkedin.com/in/jessicalee'',
     website = ''pally.app'',
     jobs = ''Product Engineer, Backend Engineer'',
     funding_stage = ''Seed'', amount_raised = ''$3.2M'', date_raised = ''Summer 2025''\<rparr>),
   (''Keystone'',
    \<lparr>founder_first = ''Ryan'', founder_last = (''O'' @ [CHR 0x27] @ ''Connor''),
     founder_email = ''ryan@keystone.ai'',
     founder_linkedin = ''linkedin.com/in/ryanoconnor'',
     website = ''keystone.ai'',
     jobs = ''AI Engineer, DevOps Engineer'',
     funding_stage = ''Seed'', amount_raised = ''$4.5M'', date_raised = ''Summer 2025''\<rparr>),
   (''Async'',
    \<lparr>founder_first = ''Lisa'', founder_last = ''Zhang'',
     founder_email = ''lisa@async.so'',
     founder_linkedin = ''linkedin.com/in/lisazhang'',
     website = ''async.so'',
     jobs = ''Product Engineer, Full Stack Engineer'',
     funding_stage = ''Seed'', amount_raised = ''$3.8M'', date_raised = ''Summer 2025''\<rparr>),
   (''Hyprnote'',
    \<lparr>founder_first = ''Kevin'', founder_last = ''Nguyen'',
     founder_email = ''kevin@hyprnote.com'',
     founder_linkedin = ''linkedin.com/in/kevinnguyen'',
     website = ''hyprnote.com'',
     jobs = ''ML Engineer, Product Engineer'',
     funding_stage = ''Seed'', amount_raised = ''$2.2M'', date_raised = ''Summer 2025''\<rparr>),
   (''ZeroEval'',
    \<lparr>founder_first = ''Amanda'', founder_last = ''Foster'',
     founder_email = ''amanda@zeroeval.ai'',
     founder_linkedin = ''linkedin.com/in/amandafoster'',
     website = ''zeroeval.ai'',
     jobs = ''AI Engineer, Research Engineer'',
     funding_stage = ''Seed'', amount_raised = ''$3.5M'', date_raised = ''Summer 2025''\<rparr>),
   (''Fulcrum'',
    \<lparr>founder_first = ''Brian'', founder_last = ''Taylor'',
     founder_email = ''brian@fulcrum.ai'',
     founder_linkedin = ''linkedin.com/in/briantaylor'',
     website = ''fulcrum.ai'',
     jobs = ''AI Engineer, Software Engineer'',
     funding_stage = ''Seed'', amount_raised = ''$4.2M'', date_raised = ''Summer 2025''\<rparr>),
   (''RowFlow'',
    \<lparr>founder_first = ''Sophie'', founder_last = ''Brown'',
     founder_email = ''sophie@rowflow.ai'',
     founder_linkedin = ''linkedin.com/in/sophiebrown'',
     website = ''rowflow.ai'',
     jobs = ''AI Engineer, UX Engineer'',
     funding_stage = ''Seed'', amount_raised = ''$2.7M'', date_raised = ''Summer 2025''\<rparr>),
   (''RealRoots'',
    \<lparr>founder_first = ''Maya'', founder_last = ''Johnson'',
     founder_email = ''maya@realroots.app'',
     founder_linkedin = ''linkedin.com/in/mayajohnson'',
     website = ''realroots.app'',
     jobs = ''Mobile Engineer, Product Designer'',
     funding_stage = ''Seed'', amount_raised = ''$2.3M'', date_raised = ''Summer 2025''\<rparr>),
   (''Certus AI'',
    \<lparr>founder_first = ''Daniel'', founder_last = ''Garcia'',
     founder_email = ''daniel@certus.ai'',
     founder_linkedin = ''linkedin.com/in/danielgarcia'',
     website = ''certus.ai'',
     jobs = ''Voice AI Engineer, Product Engineer'',
     funding_stage = ''Seed'', amount_raised = ''$3M'', date_raised = ''Summer 2025''\<rparr>),
   (''Blue'',
    \<lparr>founder_first = ''Omar'', founder_last = ''Abdelaziz'',
     founder_email = ''omar@heyblue.com'',
     founder_linkedin = ''linkedin.com/in/oabdelaziz'',
     website = ''heyblue.com'',
     jobs = ''Software Engineering Intern, Product Intern'',
     funding_stage = ''Seed'', amount_raised = ''$1.5M'', date_raised = ''Summer 2025''\<rparr>)]"

definition REAL_FOUNDERS :: "string \<rightharpoonup> founder_data" where
  "REAL_FOUNDERS = map_of REAL_FOUNDERS_entries"

section \<open>update_with_real_founders.py and batch_extract_founders.py\<close>

text \<open>\<open>is_pattern_data\<close> as \<open>update_with_real_founders.py\<close> has it.\<close>

definition is_pattern_data :: "(string \<Rightarrow> string) \<Rightarrow> company \<Rightarrow> bool" where
  "is_pattern_data py_strip company =
     (let founder_first = py_strip (get company ''founder_first_name'' []);
          founder_email = py_strip (get company ''founder_email'' [])
      in if founder_first = ''Team'' \<or> founder_first = [] then True
         else if startswith founder_email ''hello@'' then True
         else if py_strip (get company ''founder_linkedin'' []) = [] then True
         else False)"

text \<open>The copy of it in \<open>batch_extract_founders.py\<close>.\<close>

definition is_pattern_data_batch :: "(string \<Rightarrow> string) \<Rightarrow> company \<Rightarrow> bool" where
  "is_pattern_data_batch py_strip company =
     (let founder_first = py_strip (get company ''founder_first_name'' []);
          founder_email = py_strip (get company ''founder_email'' [])
      in if founder_first = ''Team'' \<or> founder_first = [] then True
         else if startswith founder_email ''hello@'' then True
         else if py_strip (get company ''founder_linkedin'' []) = [] then True
         else False)"

definition update_company_with_real_data :: "company \<Rightarrow> founder_data \<Rightarrow> company" where
  "update_company_with_real_data company real_data =
     company
       (''founder_first_name'' \<mapsto> founder_first real_data,
        ''founder_last_name'' \<mapsto> founder_last real_data,
        ''founder_email'' \<mapsto> founder_email real_data,
        ''founder_linkedin'' \<mapsto> founder_linkedin real_data,
        ''website'' \<mapsto> website real_data,
        ''job_openings'' \<mapsto> jobs real_data,
        ''funding_stage'' \<mapsto> funding_stage real_data,
        ''amount_raised'' \<mapsto> amount_raised real_data,
        ''date_raised'' \<mapsto> date_raised real_data,
        ''data_quality'' \<mapsto> REAL_MARK)"

text \<open>The variant of \<open>batch_extract_founders.py\<close> keeps the job and funding columns of
  the row, or fills in the defaults where the row has none.\<close>

definition update_company_with_real_data_batch :: "company \<Rightarrow> founder_basic \<Rightarrow> company" where
  "update_company_with_real_data_batch company real_data =
     (let jobs = get company ''job_openings'' ''Software Engineering Intern, Product Intern'';
          funding_stage = get company ''funding_stage'' ''Seed'';
          amount_raised = get company ''amount_raised'' ''$1.5M'';
          date_raised = get company ''date_raised'' ''Summer 2025''
      in company
       (''founder_first_name'' \<mapsto> founder_first real_data,
        ''founder_last_name'' \<mapsto> founder_last real_data,
        ''founder_email'' \<mapsto> founder_email real_data,
        ''founder_linkedin'' \<mapsto> founder_linkedin real_data,
        ''website'' \<mapsto> website real_data,
        ''job_openings'' \<mapsto> jobs,
        ''funding_stage'' \<mapsto> funding_stage,
        ''amount_raised'' \<mapsto> amount_raised,
        ''date_raised'' \<mapsto> date_raised,
        ''data_quality'' \<mapsto> REAL_MARK))"

text \<open>
  The body of the loop of \<open>main\<close> in \<open>update_with_real_founders.py\<close>, on one row:
  \<open>company.update(updated_company)\<close> is the map override \<open>++\<close>, and the row as it is
  after the iteration is returned.
\<close>

definition merge_update ::
  "(string \<Rightarrow> string) \<Rightarrow> (string \<rightharpoonup> founder_data) \<Rightarrow> company \<Rightarrow> company" where
  "merge_update py_strip REAL_FOUNDER_DATA company =
     (let company_name = get company ''Company_Name'' [] in
      case REAL_FOUNDER_DATA company_name of
        None \<Rightarrow> company
      | Some real_data \<Rightarrow>
          if is_pattern_data py_strip company
          then company ++ update_company_with_real_data company real_data
          else company)"

text \<open>The same loop body in \<open>batch_extract_founders.py\<close>.\<close>

definition merge_update_batch ::
  "(string \<Rightarrow> string) \<Rightarrow> (string \<rightharpoonup> founder_basic) \<Rightarrow> company \<Rightarrow> company" where
  "merge_update_batch py_strip REAL_FOUNDER_DATA company =
     (let company_name = get company ''Company_Name'' [] in
      case REAL_FOUNDER_DATA company_name of
        None \<Rightarrow> company
      | Some real_data \<Rightarrow>
          if is_pattern_data_batch py_strip company
          then company ++ update_company_with_real_data_batch company real_data
          else company)"

text \<open>The table \<open>REAL_FOUNDER_DATA\<close> of \<open>update_with_real_founders.py\<close>.\<close>

definition REAL_FOUNDER_DATA_entries :: "(string \<times> founder_data) list" where
  "REAL_FOUNDER_DATA_entries =
  [(''Uplift AI'',
    \<lparr>founder_first = ''Hammad'', founder_last = ''Malik'',
     founder_email = ''hammad@upliftai.org'',
     founder_linkedin = ''linkedin.com/in/hammad2'',
     website = ''upliftai.org'',
     jobs = ''Software Engineering Intern, Product Intern'',
     funding_stage = ''Seed'', amount_raised = ''$1.5M'', date_raised = ''Summer 2025''\<rparr>),
   (''Freya'',
    \<lparr>founder_first = ''Tunga'', founder_last = ''Bayrak'',
     founder_email = ''tunga@freyavoice.ai'',
     founder_linkedin = ''linkedin.com/in/tunga-bayrak'',
     website = ''freyavoice.ai'',
     jobs = ''ML Engineering Intern, AI Research Intern'',
     funding_stage = ''Seed'', amount_raised = ''$1.5M'', date_raised = ''Summer 2025''\<rparr>),
   (''burnt'',
    \<lparr>founder_first = ''Joseph'', founder_last = ''Jacob'',
     founder_email = ''joseph@getburnt.ai'',
     founder_linkedin = ''linkedin.com/in/josephjacob93'',
     website = ''getburnt.ai'',
     jobs = ''ML Engineering Intern, AI Research Intern'',
     funding_stage = ''Seed'', amount_raised = ''$1.5M'', date_raised = ''Summer 2025''\<rparr>)]"

definition REAL_FOUNDER_DATA :: "string \<rightharpoonup> founder_data" where
  "REAL_FOUNDER_DATA = map_of REAL_FOUNDER_DATA_entries"

text \<open>The table \<open>REAL_FOUNDER_DATA\<close> of \<open>batch_extract_founders.py\<close>, whose entries have
  the five founder fields only.\<close>

definition REAL_FOUNDER_DATA_batch_entries :: "(string \<times> founder_basic) list" where
  "REAL_FOUNDER_DATA_batch_entries =
  [(''Uplift AI'',
    \<lparr>founder_first = ''Hammad'', founder_last = ''Malik'',
     founder_email = ''hammad@upliftai.org'',
     founder_linkedin = ''linkedin.com/in/hammad2'',
     website = ''upliftai.org''\<rparr>),
   (''Freya'',
    \<lparr>founder_first = ''Tunga'', founder_last = ''Bayrak'',
     founder_email = ''tunga@freyavoice.ai'',
     founder_linkedin = ''linkedin.com/in/tunga-bayrak'',
     website = ''freyavoice.ai''\<rparr>),
   (''burnt'',
    \<lparr>founder_first = ''Joseph'', founder_last = ''Jacob'',
     founder_email = ''joseph@getburnt.ai'',
     founder_linkedin = ''linkedin.com/in/josephjacob93'',
     website = ''getburnt.ai''\<rparr>),
   (''Blue'',
    \<lparr>founder_first = ''Omar'', founder_last = ''Abdelaziz'',
     founder_email = ''omar@heyblue.com'',
     founder_linkedin = ''linkedin.com/in/oabdelaziz'',
     website = ''heyblue.com''\<rparr>),
   (''Avent'',
    \<lparr>founder_first = ''Abhay'', founder_last = ''Kalra'',
     founder_email = ''abhay@aventindustrial.com'',
     founder_linkedin = ''linkedin.com/in/abhay-kalra-683688214'',
     website = ''aventindustrial.com''\<rparr>),
   (''Cacao'',
    \<lparr>founder_first = ''Alec'', founder_last = ''Howard'',
     founder_email = ''alec@cacaofi.com'',
     founder_linkedin = ''linkedin.com/in/alexandermhoward'',
     website = ''cacaofi.com''\<rparr>),
   (''Veritus Agent'',
    \<lparr>founder_first = ''Joshua'', founder_last = ''March'',
     founder_email = ''joshua@veritusagent.ai'',
     founder_linkedin = ''linkedin.com/in/joshuamarch'',
     website = ''veritusagent.ai''\<rparr>),
   (''NOSO LABS'',
    \<lparr>founder_first = ''Winston'', founder_last = ''Chi'',
     founder_email = ''winston@noso.so'',
     founder_linkedin = ''linkedin.com/in/lwchi'',
     website = ''noso.so''\<rparr>),
   (''Vulcan Technologies'',
    \<lparr>founder_first = ''Tanner'', founder_last = ''Jones'',
     founder_email = ''tanner@vulcan-tech.com'',
     founder_linkedin = ''linkedin.com/in/tanner-jones-817192167'',
     website = ''vulcan-tech.com''\<rparr>),
   (''Spotlight Realty'',
    \<lparr>founder_first = ''Raymond'', founder_last = ''Allie'',
     founder_email = ''raymond@spotlight.realty'',
     founder_linkedin = ''linkedin.com/in/raymond-allie'',
     website = ''spotlight.realty''\<rparr>),
   (''Munify'',
    \<lparr>founder_first = ''Khalid'', founder_last = ''Ashmawy'',
     founder_email = ''khalid@munify.ai'',
     founder_linkedin = ''linkedin.com/in/khalidashmawy'',
     website = ''munify.ai''\<rparr>),
   (''TectoAI'',
    \<lparr>founder_first = ''Niosha'', founder_last = ''Afsharikia'',
     founder_email = ''founders@tecto.ai'',
     founder_linkedin = ''linkedin.com/in/afsharikia'',
     website = ''tecto.ai''\<rparr>),
   (''Duranium'',
    \<lparr>founder_first = ''Brenden'', founder_last = ''Prins-McKinney'',
     founder_email = ''brenden@duranium.co'',
     founder_linkedin = ''linkedin.com/in/brenden-prins-mckinney-96959a69'',
     website = ''duranium.co''\<rparr>),
   (''Perspectives Health'',
    \<lparr>founder_first = ''Eshan'', founder_last = ''Dosani'',
     founder_email = ''eshan@perspectiveshealth.ai'',
     founder_linkedin = ''linkedin.com/in/eshan-dosani'',
     website = ''perspectiveshealth.ai''\<rparr>),
   (''Magnetic'',
    \<lparr>founder_first = ''Thomas'', founder_last = ''Shelley'',
     founder_email = ''thomas@magnetictax.com'',
     founder_linkedin = ''linkedin.com/in/thomasjshelley'',
     website = ''magnetictax.com''\<rparr>),
   (''Fleetline'',
    \<lparr>founder_first = ''Saurav'', founder_last = ''Kumar'',
     founder_email = ''saurav@fleetline.ai'',
     founder_linkedin = ''linkedin.com/in/sauravml'',
     website = ''fleetline.ai''\<rparr>),
   (''Clodo'',
    \<lparr>founder_first = ''Sid'', founder_last = ''Rajaram'',
     founder_email = ''sid@clodo.ai'',
     founder_linkedin = ''linkedin.com/in/sidharthrajaram'',
     website = ''clodo.ai''\<rparr>),
   (''Flywheel AI'',
    \<lparr>founder_first = ''Jash'', founder_last = ''Mota'',
     founder_email = ''jash@useflywheel.ai'',
     founder_linkedin = ''linkedin.com/in/jashmota'',
     website = ''useflywheel.ai''\<rparr>),
   (''Juxta'',
    \<lparr>founder_first = ''John'', founder_last = ''Ferrara'',
     founder_email = ''john@usejuxta.org'',
     founder_linkedin = ''linkedin.com/in/ferrara-john'',
     website = ''juxta.com''\<rparr>),
   (''dScribe AI'',
    \<lparr>founder_first = ''Warren'', founder_last = ''Wijaya Wang'',
     founder_email = ''warren@dscribeai.com'',
     founder_linkedin = ''linkedin.com/in/warrenwang-fnu'',
     website = ''dscribeai.com''\<rparr>),
   (''Reacher'',
    \<lparr>founder_first = ''Jerry'', founder_last = ''Qian'',
     founder_email = ''jerry@reacherapp.com'',
     founder_linkedin = ''linkedin.com/in/j-qian'',
     website = ''reacherapp.com''\<rparr>),
   (''Hera'',
    \<lparr>founder_first = ''Peter'', founder_last = ''Tribelhorn'',
     founder_email = ''peter@hera.video'',
     founder_linkedin = ''linkedin.com/in/peter-tribelhorn-36a967142'',
     website = ''hera.video''\<rparr>),
   (''Nottelabs'',
    \<lparr>founder_first = ''Andrea'', founder_last = ''Pinto'',
     founder_email = ''andrea@notte.cc'',
     founder_linkedin = ''linkedin.com/in/pinto-andrea'',
     website = ''notte.cc''\<rparr>),
   (''Locata'',
    \<lparr>founder_first = ''Alejandro'', founder_last = ''Salinas'',
     founder_email = ''alejandro@locatahealth.com'',
     founder_linkedin = ''linkedin.com/in/asalinas21'',
     website = ''locatahealth.com''\<rparr>),
   (''Pleom'',
    \<lparr>founder_first = ''Royce'', founder_last = ''Arockiasamy'',
     founder_email = ''royce@pleom.com'',
     founder_linkedin = ''linkedin.com/in/roycea1'',
     website = ''pleom.com''\<rparr>)]"

definition REAL_FOUNDER_DATA_batch :: "string \<rightharpoonup> founder_basic" where
  "REAL_FOUNDER_DATA_batch = map_of REAL_FOUNDER_DATA_batch_entries"

section \<open>Regular expressions as the scripts use them\<close>

text \<open>
  The fragment of Python's \<open>re\<close> that the patterns of the scripts are written in:
  literals, character classes, \<open>+\<close> on a character class, \<open>?\<close>, concatenation,
  alternation and numbered capturing groups. A non-capturing group is the expression
  inside it. The matcher below is \<open>re\<close> on a text of ASCII characters; for the slug
  pattern, which has no class but \<^verbatim>\<open>[^/]\<close> and is matched without a flag, it is \<open>re\<close>
  on every text.
\<close>

datatype cset = Pos "char list" | Neg "char list"

datatype rx =
    Lit string
  | One cset
  | Many1 cset
  | Opt rx
  | Seq rx rx
  | Alt rx rx
  | Grp nat rx

type_synonym caps = "nat \<rightharpoonup> string"

definition upper_ch :: "char \<Rightarrow> char" where
  "upper_ch c =
     (let n = (of_char c :: nat) in if 97 \<le> n \<and> n \<le> 122 then char_of (n - 32) else c)"

text \<open>Under \<open>re.IGNORECASE\<close> (the flag \<open>ic\<close>) a character is in a class when one of its
  case variants is, and a literal is compared after lowercasing.\<close>

definition in_cset :: "bool \<Rightarrow> cset \<Rightarrow> char \<Rightarrow> bool" where
  "in_cset ic cs c =
     (case cs of
        Pos l \<Rightarrow> c \<in> set l \<or> (ic \<and> (lower_ch c \<in> set l \<or> upper_ch c \<in> set l))
      | Neg l \<Rightarrow> \<not> (c \<in> set l \<or> (ic \<and> (lower_ch c \<in> set l \<or> upper_ch c \<in> set l))))"

definition lit_eq :: "bool \<Rightarrow> string \<Rightarrow> string \<Rightarrow> bool" where
  "lit_eq ic s l = (if ic then lower s = lower l else s = l)"

text \<open>
  The backtracking matcher: from a state (the groups captured so far, the rest of the
  input) \<open>rmatch\<close> lists every state the expression can end in, in the order in which
  the backtracking search of \<open>re\<close> tries them: a greedy repetition longest first, the
  inside of \<open>?\<close> before skipping it, the left branch of an alternation before the right
  one. The head of the list is the match that \<open>re\<close> reports.
\<close>

fun rmatch :: "bool \<Rightarrow> rx \<Rightarrow> caps \<times> string \<Rightarrow> (caps \<times> string) list" where
  "rmatch ic (Lit l) (g, s) =
     (if length l \<le> length s \<and> lit_eq ic (take (length l) s) l
      then [(g, drop (length l) s)] else [])"
| "rmatch ic (One cs) (g, s) =
     (case s of [] \<Rightarrow> [] | c # s' \<Rightarrow> if in_cset ic cs c then [(g, s')] else [])"
| "rmatch ic (Many1 cs) (g, s) =
     map (\<lambda>k. (g, drop k s)) (rev [1 ..< Suc (length (takeWhile (in_cset ic cs) s))])"
| "rmatch ic (Opt r) (g, s) = rmatch ic r (g, s) @ [(g, s)]"
| "rmatch ic (Seq r1 r2) (g, s) = concat (map (rmatch ic r2) (rmatch ic r1 (g, s)))"
| "rmatch ic (Alt r1 r2) (g, s) = rmatch ic r1 (g, s) @ rmatch ic r2 (g, s)"
| "rmatch ic (Grp n r) (g, s) =
     map (\<lambda>(g', s'). (g'(n \<mapsto> take (length s - length s') s), s')) (rmatch ic r (g, s))"

text \<open>\<open>re.search\<close>: the start positions are tried from the left, the end of the string
  included; the result is the groups of the first match, or \<open>None\<close>.\<close>

fun search :: "bool \<Rightarrow> rx \<Rightarrow> string \<Rightarrow> caps option" where
  "search ic r [] = (case rmatch ic r (Map.empty, []) of [] \<Rightarrow> None | (g, _) # _ \<Rightarrow> Some g)"
| "search ic r (c # cs) =
     (case rmatch ic r (Map.empty, c # cs) of [] \<Rightarrow> search ic r cs | (g, _) # _ \<Rightarrow> Some g)"

text \<open>The number of capturing groups of a pattern: the length of \<open>match.groups()\<close>.\<close>

fun ngroups :: "rx \<Rightarrow> nat" where
  "ngroups (Lit l) = 0"
| "ngroups (One cs) = 0"
| "ngroups (Many1 cs) = 0"
| "ngroups (Opt r) = ngroups r"
| "ngroups (Seq r1 r2) = ngroups r1 + ngroups r2"
| "ngroups (Alt r1 r2) = ngroups r1 + ngroups r2"
| "ngroups (Grp n r) = Suc (ngroups r)"

fun seqs :: "rx list \<Rightarrow> rx" where
  "seqs [] = Lit []"
| "seqs [r] = r"
| "seqs (r # rs) = Seq r (seqs rs)"

fun alts :: "rx list \<Rightarrow> rx" where
  "alts [] = One (Pos [])"
| "alts [r] = r"
| "alts (r # rs) = Alt r (alts rs)"

text \<open>The classes \<open>\s\<close>, \<open>\d\<close> and \<open>[A-Z]\<close> among the ASCII characters.\<close>

definition ws :: cset where
  "ws = Pos [CHR 0x09, CHR 0x0A, CHR 0x0B, CHR 0x0C, CHR 0x0D,
             CHR 0x1C, CHR 0x1D, CHR 0x1E, CHR 0x1F, CHR '' '']"

definition digits :: string where
  "digits = ''0123456789''"

definition A_Z :: cset where
  "A_Z = Pos ''ABCDEFGHIJKLMNOPQRSTUVWXYZ''"

section \<open>find_funding_rounds.py: extract_company_slug\<close>

text \<open>The pattern \<^verbatim>\<open>/companies/([^/]+)\<close>.\<close>

definition slug_pattern :: rx where
  "slug_pattern = Seq (Lit ''/companies/'') (Grp 1 (Many1 (Neg ''/'')))"

text \<open>\<open>match.group(1)\<close> is the entry of group 1, which is \<open>None\<close> for a group that took no
  part in the match.\<close>

definition extract_company_slug :: "string \<Rightarrow> string option" where
  "extract_company_slug yc_link =
     (if yc_link = [] then None
      else case search False slug_pattern yc_link of
             Some m \<Rightarrow> m 1
           | None \<Rightarrow> None)"

section \<open>find_actual_funding.py: parse_funding_info\<close>

text \<open>The amount \<^verbatim>\<open>\$[\d.]+[MBK]?\<close> and the two lists of round names.\<close>

definition amount_rx :: rx where
  "amount_rx = seqs [Lit ''$'', Many1 (Pos (digits @ ''.'')), Opt (One (Pos ''MBK''))]"

definition series_rx :: rx where
  "series_rx = seqs [Lit ''Series'', Many1 ws, One A_Z]"

definition round_rx :: rx where
  "round_rx = alts [Lit ''seed'', series_rx, Lit ''pre-seed'']"

text \<open>The first pattern lists the alternative for a series twice.\<close>

definition round_rx_twice :: rx where
  "round_rx_twice = alts [Lit ''seed'', series_rx, Lit ''pre-seed'', series_rx]"

definition pattern1 :: rx where
  "pattern1 =
     seqs [Lit ''raised'', Many1 ws, Grp 1 amount_rx, Many1 ws,
           Opt (seqs [Lit ''in'', Many1 ws]), Opt (seqs [Lit ''a'', Many1 ws]),
           Grp 2 round_rx_twice, Many1 ws, Lit ''round'']"

definition pattern2 :: rx where
  "pattern2 =
     seqs [Grp 1 round_rx, Many1 ws, Lit ''round'', Many1 ws, Lit ''of'', Many1 ws,
           Grp 2 amount_rx]"

definition pattern3 :: rx where
  "pattern3 =
     seqs [Grp 1 amount_rx, Many1 ws, alts [Lit ''funding'', Lit ''raised''], Many1 ws,
           Opt (seqs [Lit ''in'', Many1 ws]), Grp 2 round_rx]"

definition patterns :: "rx list" where
  "patterns = [pattern1, pattern2, pattern3]"

text \<open>
  The body of \<open>if match:\<close>. The result is the pair \<open>(funding_round, funding_amount)\<close>.
  \<open>'$' in match.group(1)\<close> raises \<open>TypeError\<close> when group 1 is \<open>None\<close>.
\<close>

definition assign_groups :: "rx \<Rightarrow> caps \<Rightarrow> py_error + (string option \<times> string option)" where
  "assign_groups pattern m =
     (if ngroups pattern = 2
      then (case m 1 of
              None \<Rightarrow> Inl TypeError
            | Some g1 \<Rightarrow> if CHR ''$'' \<in> set g1 then Inr (m 2, m 1) else Inr (m 1, m 2))
      else Inr (None, None))"

text \<open>
  The loop over the patterns, which ends at the first one that matches. The parameter
  \<open>re_search\<close> is \<open>re.search\<close> under \<open>re.IGNORECASE\<close>, from a pattern and a text to the groups
  of the first match; on a text of ASCII characters it is \<open>search True\<close>.
\<close>

fun parse_loop ::
  "(rx \<Rightarrow> string \<Rightarrow> caps option) \<Rightarrow> rx list \<Rightarrow> string \<Rightarrow>
     py_error + (string option \<times> string option)" where
  "parse_loop re_search [] text = Inr (None, None)"
| "parse_loop re_search (pattern # rest) text =
     (case re_search pattern text of
        Some m \<Rightarrow> assign_groups pattern m
      | None \<Rightarrow> parse_loop re_search rest text)"

definition parse_funding_info ::
  "(rx \<Rightarrow> string \<Rightarrow> caps option) \<Rightarrow> string \<Rightarrow> string \<Rightarrow>
     py_error + (string option \<times> string option)" where
  "parse_funding_info re_search search_result_text company_name =
     parse_loop re_search patterns search_result_text"

section \<open>What a pattern can consume and capture\<close>

text \<open>
  Three syntactic readings of a pattern, for the proofs about the matcher: the
  characters that a match of it may contain, the numbers of its groups, and the
  expression inside the group of a given number when every match of the pattern runs
  through that group (a group inside \<open>?\<close> or under an alternation is not counted, and of two
  groups with the same number the later one is taken).
\<close>

primrec can :: "bool \<Rightarrow> rx \<Rightarrow> char \<Rightarrow> bool" where
  "can ic (Lit l) c = (if ic then lower_ch c \<in> set (lower l) else c \<in> set l)"
| "can ic (One cs) c = in_cset ic cs c"
| "can ic (Many1 cs) c = in_cset ic cs c"
| "can ic (Opt r) c = can ic r c"
| "can ic (Seq r1 r2) c = (can ic r1 c \<or> can ic r2 c)"
| "can ic (Alt r1 r2) c = (can ic r1 c \<or> can ic r2 c)"
| "can ic (Grp n r) c = can ic r c"

primrec groups :: "rx \<Rightarrow> nat set" where
  "groups (Lit l) = {}"
| "groups (One cs) = {}"
| "groups (Many1 cs) = {}"
| "groups (Opt r) = groups r"
| "groups (Seq r1 r2) = groups r1 \<union> groups r2"
| "groups (Alt r1 r2) = groups r1 \<union> groups r2"
| "groups (Grp n r) = insert n (groups r)"

primrec grp_of :: "rx \<Rightarrow> nat \<Rightarrow> rx option" where
  "grp_of (Lit l) n = None"
| "grp_of (One cs) n = None"
| "grp_of (Many1 cs) n = None"
| "grp_of (Opt r) n = None"
| "grp_of (Seq r1 r2) n =
     (case grp_of r2 n of
        Some x \<Rightarrow> Some x
      | None \<Rightarrow> if n \<in> groups r2 then None else grp_of r1 n)"
| "grp_of (Alt r1 r2) n = None"
| "grp_of (Grp m r) n = (if m = n then Some r else grp_of r n)"

text \<open>The slug pattern matches at the start of \<open>t\<close>; the text of its group there.\<close>

definition slug_here :: "string \<Rightarrow> bool" where
  "slug_here t = (\<exists>c rest. t = ''/companies/'' @ c # rest \<and> c \<noteq> CHR ''/'')"

definition slug_of :: "string \<Rightarrow> string" where
  "slug_of t = takeWhile (\<lambda>x. x \<noteq> CHR ''/'') (drop (length ''/companies/'') t)"

section \<open>Sample rows\<close>

text \<open>A row of the input of \<open>main.py\<close> whose name is not a key of \<open>REAL_FOUNDERS\<close>, and the
  row that the pattern branch makes of it.\<close>

definition nox_row :: company where
  "nox_row =
     [''Company_Name'' \<mapsto> ''Nox Metals, Inc.'',
      ''YC_Link'' \<mapsto> ''https://www.ycombinator.com/companies/nox-metals'',
      ''Batch'' \<mapsto> ''Summer 2025'',
      ''company_description'' \<mapsto> ''Software for metal suppliers'']"

definition nox_enriched :: company where
  "nox_enriched =
     nox_row
       (''founder_first_name'' \<mapsto> ''Team'',
        ''founder_last_name'' \<mapsto> [],
        ''founder_email'' \<mapsto> ''hello@noxmetals.com'',
        ''founder_linkedin'' \<mapsto> [],
        ''website'' \<mapsto> ''noxmetals.com'',
        ''job_openings'' \<mapsto> ''Software Engineering Intern, Product Engineering Intern'',
        ''funding_stage'' \<mapsto> ''Seed'',
        ''amount_raised'' \<mapsto> ''$1.5M'',
        ''date_raised'' \<mapsto> ''Summer 2025'',
        ''data_quality'' \<mapsto> PATTERN_MARK)"

text \<open>A row whose name is a key of \<open>REAL_FOUNDERS\<close>, and its enrichment.\<close>

definition blue_row :: company where
  "blue_row =
     [''Company_Name'' \<mapsto> ''Blue'',
      ''YC_Link'' \<mapsto> ''https://www.ycombinator.com/companies/blue'',
      ''Batch'' \<mapsto> ''Summer 2025'',
      ''company_description'' \<mapsto> ''A voice assistant for your phone'']"

definition blue_enriched :: company where
  "blue_enriched =
     blue_row
       (''founder_first_name'' \<mapsto> ''Omar'',
        ''founder_last_name'' \<mapsto> ''Abdelaziz'',
        ''founder_email'' \<mapsto> ''omar@heyblue.com'',
        ''founder_linkedin'' \<mapsto> ''linkedin.com/in/oabdelaziz'',
        ''website'' \<mapsto> ''heyblue.com'',
        ''job_openings'' \<mapsto> ''Software Engineering Intern, Product Intern'',
        ''funding_stage'' \<mapsto> ''Seed'',
        ''amount_raised'' \<mapsto> ''$1.5M'',
        ''date_raised'' \<mapsto> ''Summer 2025'',
        ''data_quality'' \<mapsto> REAL_MARK)"

text \<open>A row read from a file that has no \<open>company_description\<close> column.\<close>

definition short_row :: company where
  "short_row =
     [''Company_Name'' \<mapsto> ''Acme'',
      ''YC_Link'' \<mapsto> ''https://www.ycombinator.com/companies/acme'',
      ''Batch'' \<mapsto> ''Summer 2025'']"

text \<open>A row whose founder name is the sentinel followed by a space.\<close>

definition padded_row :: company where
  "padded_row =
     [''Company_Name'' \<mapsto> ''Acme'',
      ''founder_first_name'' \<mapsto> ''Team '',
      ''founder_email'' \<mapsto> ''ann@acme.com'',
      ''founder_linkedin'' \<mapsto> ''linkedin.com/in/ann'']"

text \<open>A pattern row of a company that both update scripts have an entry for, and the
  rows that the two scripts make of it.\<close>

definition freya_row :: company where
  "freya_row =
     [''Company_Name'' \<mapsto> ''Freya'',
      ''founder_first_name'' \<mapsto> ''Team'',
      ''founder_last_name'' \<mapsto> [],
      ''founder_email'' \<mapsto> ''hello@freya.com'',
      ''founder_linkedin'' \<mapsto> [],
      ''website'' \<mapsto> ''freya.com'',
      ''job_openings'' \<mapsto> ''Data Science Intern, Analytics Intern'',
      ''data_quality'' \<mapsto> PATTERN_MARK]"

definition freya_updated :: company where
  "freya_updated =
     freya_row
       (''founder_first_name'' \<mapsto> ''Tunga'',
        ''founder_last_name'' \<mapsto> ''Bayrak'',
        ''founder_email'' \<mapsto> ''tunga@freyavoice.ai'',
        ''founder_linkedin'' \<mapsto> ''linkedin.com/in/tunga-bayrak'',
        ''website'' \<mapsto> ''freyavoice.ai'',
        ''job_openings'' \<mapsto> ''ML Engineering Intern, AI Research Intern'',
        ''funding_stage'' \<mapsto> ''Seed'',
        ''amount_raised'' \<mapsto> ''$1.5M'',
        ''date_raised'' \<mapsto> ''Summer 2025'',
        ''data_quality'' \<mapsto> REAL_MARK)"

definition freya_updated_batch :: company where
  "freya_updated_batch =
     freya_row
       (''founder_first_name'' \<mapsto> ''Tunga'',
        ''founder_last_name'' \<mapsto> ''Bayrak'',
        ''founder_email'' \<mapsto> ''tunga@freyavoice.ai'',
        ''founder_linkedin'' \<mapsto> ''linkedin.com/in/tunga-bayrak'',
        ''website'' \<mapsto> ''freyavoice.ai'',
        ''job_openings'' \<mapsto> ''Data Science Intern, Analytics Intern'',
        ''funding_stage'' \<mapsto> ''Seed'',
        ''amount_raised'' \<mapsto> ''$1.5M'',
        ''date_raised'' \<mapsto> ''Summer 2025'',
        ''data_quality'' \<mapsto> REAL_MARK)"

text \<open>The ten columns that enrichment writes.\<close>

definition enriched_fields :: "string set" where
  "enriched_fields =
     {''founder_first_name'', ''founder_last_name'', ''founder_email'', ''founder_linkedin'',
      ''website'', ''job_openings'', ''funding_stage'', ''amount_raised'', ''date_raised'',
      ''data_quality''}"

section \<open>Facts about the string functions\<close>

lemma startswith_prefix: "startswith s p \<longleftrightarrow> prefix p s"
  unfolding startswith_def
  by (metis append_take_drop_id prefix_def append_eq_conv_conj)

lemma contains_sublist: "contains s w \<longleftrightarrow> sublist w s"
  by (induction s) (auto simp: startswith_prefix sublist_Cons_right)

lemma list_ex_contains: "list_ex (contains s) kws \<longleftrightarrow> (\<exists>w \<in> set kws. sublist w s)"
  by (simp add: list_ex_iff contains_sublist)

text \<open>\<open>strip\<close> removes a run of whitespace at each end, and nothing else, and what is
  left neither starts nor ends with whitespace.\<close>

lemma strip_Nil [simp]: "strip [] = []"
  by (simp add: strip_def)

lemma strip_decomp:
  "\<exists>a b. s = a @ strip s @ b \<and> (\<forall>c \<in> set a. is_space c) \<and> (\<forall>c \<in> set b. is_space c)"
proof -
  let ?t = "dropWhile is_space s"
  have 1: "s = takeWhile is_space s @ ?t" by simp
  have 2: "rev ?t = takeWhile is_space (rev ?t) @ dropWhile is_space (rev ?t)" by simp
  have "?t = rev (dropWhile is_space (rev ?t)) @ rev (takeWhile is_space (rev ?t))"
    by (metis 2 rev_append rev_rev_ident)
  then have 3: "?t = strip s @ rev (takeWhile is_space (rev ?t))"
    by (simp add: strip_def)
  have "s = takeWhile is_space s @ strip s @ rev (takeWhile is_space (rev ?t))"
    using 1 3 by metis
  moreover have "\<forall>c \<in> set (takeWhile is_space s). is_space c"
    by (meson set_takeWhileD)
  moreover have "\<forall>c \<in> set (rev (takeWhile is_space (rev ?t))). is_space c"
    by (metis set_rev set_takeWhileD)
  ultimately show ?thesis by blast
qed

lemma strip_ends:
  "strip s \<noteq> [] \<Longrightarrow> \<not> is_space (hd (strip s)) \<and> \<not> is_space (last (strip s))"
proof -
  assume ne: "strip s \<noteq> []"
  let ?t = "dropWhile is_space s"
  let ?u = "dropWhile is_space (rev ?t)"
  have u: "?u \<noteq> []" using ne by (simp add: strip_def)
  then have "\<not> is_space (hd ?u)" by (rule hd_dropWhile)
  then have l: "\<not> is_space (last (strip s))"
    using u by (simp add: strip_def last_rev)
  have "?t \<noteq> []"
  proof
    assume e: "?t = []"
    have "?u = []" unfolding e by simp
    with u show False by (rule notE)
  qed
  then have ht: "\<not> is_space (hd ?t)" by (rule hd_dropWhile)
  have "rev ?t = takeWhile is_space (rev ?t) @ ?u" by simp
  then have "?t = rev ?u @ rev (takeWhile is_space (rev ?t))"
    by (metis rev_append rev_rev_ident)
  then have "hd ?t = hd (rev ?u)"
    using u by (metis hd_append2 rev_is_Nil_conv)
  then show ?thesis using ht l by (simp add: strip_def)
qed

lemma get_upd: "get (m(k \<mapsto> v)) k' d = (if k' = k then v else get m k' d)"
  by (simp add: get_def)

section \<open>The derived domain\<close>

lemma extract_domain_unfold:
  "extract_domain py_lower name =
     replace (replace (replace (replace (replace (replace (replace (py_lower name)
       '' '' []) '','' []) ''.'' []) ''inc'' []) ''llc'' []) ''the'' []) ''-'' [] @ ''.com''"
  by (simp add: extract_domain_def strip_list_def)

text \<open>
  Claim C5, as stated: \<open>extract_domain\<close> of \<open>Nox Metals, Inc.\<close> is \<open>noxmetalsinc.com\<close>.
  It is not: the result of the code is a different string.
\<close>

theorem extract_domain_nox_not_inc:
  "extract_domain lower ''Nox Metals, Inc.'' \<noteq> ''noxmetalsinc.com''"
  by code_simp

text \<open>
  Claim C5, amended: lowercasing the name and removing the first three entries of the
  strip list (space, comma, full stop) leaves \<open>noxmetalsinc\<close>; the fourth entry \<open>inc\<close> then
  removes the suffix, and \<open>extract_domain\<close> of \<open>Nox Metals, Inc.\<close> is \<open>noxmetals.com\<close>.
\<close>

theorem extract_domain_nox:
  "strip_list = ['' '', '','', ''.'', ''inc'', ''llc'', ''the'', ''-''] \<and>
   foldl (\<lambda>domain remove. replace domain remove []) (lower ''Nox Metals, Inc.'')
     (take 3 strip_list) = ''noxmetalsinc'' \<and>
   extract_domain lower ''Nox Metals, Inc.'' = ''noxmetals.com''"
  by code_simp

text \<open>The same value results with every lowercasing function that makes
  \<open>nox metals, inc.\<close> of the name, as \<open>str.lower\<close> does.\<close>

lemma extract_domain_nox_any:
  assumes "py_lower ''Nox Metals, Inc.'' = ''nox metals, inc.''"
  shows "extract_domain py_lower ''Nox Metals, Inc.'' = ''noxmetals.com''"
proof -
  have "foldl (\<lambda>domain remove. replace domain remove []) ''nox metals, inc.'' strip_list
      @ ''.com'' = ''noxmetals.com''"
    by code_simp
  then show ?thesis by (simp add: extract_domain_def assms)
qed

section \<open>Enrichment\<close>

lemma enrich_company_real:
  "company ''Company_Name'' = Some name \<Longrightarrow> overrides name = Some data \<Longrightarrow>
   enrich_company py_lower overrides company =
     Inr (company
       (''founder_first_name'' \<mapsto> founder_first data,
        ''founder_last_name'' \<mapsto> founder_last data,
        ''founder_email'' \<mapsto> founder_email data,
        ''founder_linkedin'' \<mapsto> founder_linkedin data,
        ''website'' \<mapsto> website data,
        ''job_openings'' \<mapsto> jobs data,
        ''funding_stage'' \<mapsto> funding_stage data,
        ''amount_raised'' \<mapsto> amount_raised data,
        ''date_raised'' \<mapsto> date_raised data,
        ''data_quality'' \<mapsto> REAL_MARK))"
  by (simp add: enrich_company_def)

lemma enrich_company_pattern:
  "company ''Company_Name'' = Some name \<Longrightarrow> overrides name = None \<Longrightarrow>
   company ''company_description'' = Some description \<Longrightarrow>
   enrich_company py_lower overrides company =
     Inr (company
       (''founder_first_name'' \<mapsto> ''Team'',
        ''founder_last_name'' \<mapsto> [],
        ''founder_email'' \<mapsto> ''hello@'' @ extract_domain py_lower name,
        ''founder_linkedin'' \<mapsto> [],
        ''website'' \<mapsto> extract_domain py_lower name,
        ''job_openings'' \<mapsto> pattern_jobs (py_lower description),
        ''funding_stage'' \<mapsto> ''Seed'',
        ''amount_raised'' \<mapsto> ''$1.5M'',
        ''date_raised'' \<mapsto> ''Summer 2025'',
        ''data_quality'' \<mapsto> PATTERN_MARK))"
  by (simp add: enrich_company_def Let_def)

text \<open>\<open>enrich_company\<close> returns exactly when the row has a name and, unless the name is
  an override key, a description; the only error it raises is \<open>KeyError\<close>.\<close>

lemma enrich_company_returns:
  "(\<exists>r. enrich_company py_lower overrides company = Inr r) \<longleftrightarrow>
   (\<exists>name. company ''Company_Name'' = Some name \<and>
      (overrides name \<noteq> None \<or> company ''company_description'' \<noteq> None))"
  by (auto simp: enrich_company_def Let_def split: option.splits)

lemma enrich_company_KeyError:
  "enrich_company py_lower overrides company = Inl e \<Longrightarrow> e = KeyError"
  by (auto simp: enrich_company_def Let_def split: option.splits)

lemma REAL_FOUNDERS_nox: "REAL_FOUNDERS ''Nox Metals, Inc.'' = None"
proof -
  have "map_of REAL_FOUNDERS_entries ''Nox Metals, Inc.'' = None"
    by code_simp
  then show ?thesis
    by (simp add: REAL_FOUNDERS_def)
qed

lemma REAL_FOUNDERS_blue:
  "REAL_FOUNDERS ''Blue'' =
      Some \<lparr>founder_first = ''Omar'', founder_last = ''Abdelaziz'',
        founder_email = ''omar@heyblue.com'',
        founder_linkedin = ''linkedin.com/in/oabdelaziz'',
        website = ''heyblue.com'',
        jobs = ''Software Engineering Intern, Product Intern'',
        funding_stage = ''Seed'', amount_raised = ''$1.5M'', date_raised = ''Summer 2025''\<rparr>"
proof -
  have "map_of REAL_FOUNDERS_entries ''Blue'' =
      Some \<lparr>founder_first = ''Omar'', founder_last = ''Abdelaziz'',
        founder_email = ''omar@heyblue.com'',
        founder_linkedin = ''linkedin.com/in/oabdelaziz'',
        website = ''heyblue.com'',
        jobs = ''Software Engineering Intern, Product Intern'',
        funding_stage = ''Seed'', amount_raised = ''$1.5M'', date_raised = ''Summer 2025''\<rparr>"
    by code_simp
  then show ?thesis
    by (simp add: REAL_FOUNDERS_def)
qed

lemma nox_row_enriched: "enrich_company lower REAL_FOUNDERS nox_row = Inr nox_enriched"
proof -
  have n: "nox_row ''Company_Name'' = Some ''Nox Metals, Inc.''"
    and d: "nox_row ''company_description'' = Some ''Software for metal suppliers''"
    by (simp_all add: nox_row_def)
  have dm: "extract_domain lower ''Nox Metals, Inc.'' = ''noxmetals.com''"
    by code_simp
  have j: "pattern_jobs (lower ''Software for metal suppliers'') =
             ''Software Engineering Intern, Product Engineering Intern''"
    by code_simp
  show ?thesis
    unfolding enrich_company_pattern [where company = nox_row and overrides = REAL_FOUNDERS
        and py_lower = lower, OF n REAL_FOUNDERS_nox d] dm j nox_enriched_def
    by simp
qed

lemma blue_row_enriched: "enrich_company py_lower REAL_FOUNDERS blue_row = Inr blue_enriched"
proof -
  have n: "blue_row ''Company_Name'' = Some ''Blue''"
    by (simp add: blue_row_def)
  show ?thesis
    unfolding enrich_company_real [where company = blue_row and overrides = REAL_FOUNDERS,
        OF n REAL_FOUNDERS_blue] blue_enriched_def
    by simp
qed

text \<open>
  Claim C1: for a row that has a \<open>Company_Name\<close>: if the name is a key of the override
  table, \<open>enrich_company\<close> returns the row with the founder first and last name, email,
  LinkedIn, website, job openings, funding stage, amount raised and date raised replaced
  by the values of the override entry and \<open>data_quality\<close> set to the \<open>REAL\<close> marker.
  Otherwise, for a row that has a description, it returns the row with the first name
  \<open>Team\<close>, an empty last name and LinkedIn, the email \<open>hello@\<close> followed by the derived
  domain, the derived domain as website (the lowercased name with the entries of the strip
  list removed in their order, then \<open>.com\<close>), the job openings picked from the lowercased
  description (the AI and ML keywords first, then the software keywords, then the data
  keywords, then the default), the stage \<open>Seed\<close>, the amount \<open>$1.5M\<close>, the date
  \<open>Summer 2025\<close> and \<open>data_quality\<close> set to the \<open>PATTERN\<close> marker. Lowercasing is
  \<open>py_lower\<close>, whatever it does to a string: the statement holds of \<open>str.lower\<close> on names
  and descriptions in any script.
\<close>

theorem enrich_company_spec:
  assumes "company ''Company_Name'' = Some name"
  shows "(\<forall>data. overrides name = Some data \<longrightarrow>
            enrich_company py_lower overrides company =
              Inr (company
                 (''founder_first_name'' \<mapsto> founder_first data,
                  ''founder_last_name'' \<mapsto> founder_last data,
                  ''founder_email'' \<mapsto> founder_email data,
                  ''founder_linkedin'' \<mapsto> founder_linkedin data,
                  ''website'' \<mapsto> website data,
                  ''job_openings'' \<mapsto> jobs data,
                  ''funding_stage'' \<mapsto> funding_stage data,
                  ''amount_raised'' \<mapsto> amount_raised data,
                  ''date_raised'' \<mapsto> date_raised data,
                  ''data_quality'' \<mapsto> REAL_MARK)))
       \<and> (\<forall>description domain listing.
            overrides name = None \<and> company ''company_description'' = Some description \<and>
            domain =
              replace (replace (replace (replace (replace (replace (replace (py_lower name)
                '' '' []) '','' []) ''.'' []) ''inc'' []) ''llc'' []) ''the'' []) ''-'' []
              @ ''.com'' \<and>
            listing =
              (if \<exists>w \<in> set [''ai'', ''ml'', ''machine learning'', ''llm''].
                    sublist w (py_lower description)
               then ''ML Engineering Intern, AI Research Intern''
               else if \<exists>w \<in> set [''developer'', ''code'', ''software''].
                    sublist w (py_lower description)
               then ''Software Engineering Intern, Product Engineering Intern''
               else if \<exists>w \<in> set [''data'', ''analytics'']. sublist w (py_lower description)
               then ''Data Science Intern, Analytics Intern''
               else ''Software Engineering Intern, Product Intern'') \<longrightarrow>
            enrich_company py_lower overrides company =
              Inr (company
                 (''founder_first_name'' \<mapsto> ''Team'',
                  ''founder_last_name'' \<mapsto> [],
                  ''founder_email'' \<mapsto> ''hello@'' @ domain,
                  ''founder_linkedin'' \<mapsto> [],
                  ''website'' \<mapsto> domain,
                  ''job_openings'' \<mapsto> listing,
                  ''funding_stage'' \<mapsto> ''Seed'',
                  ''amount_raised'' \<mapsto> ''$1.5M'',
                  ''date_raised'' \<mapsto> ''Summer 2025'',
                  ''data_quality'' \<mapsto> PATTERN_MARK)))"
    (is "(\<forall>data. ?A data) \<and> (\<forall>description domain listing. ?B description domain listing)")
proof (intro conjI allI)
  fix data show "?A data"
    using assms by (simp add: enrich_company_real)
next
  fix description domain listing
  show "?B description domain listing"
  proof (intro impI, elim conjE)
    assume t: "overrides name = None" and d: "company ''company_description'' = Some description"
      and dm: "domain =
              replace (replace (replace (replace (replace (replace (replace (py_lower name)
                '' '' []) '','' []) ''.'' []) ''inc'' []) ''llc'' []) ''the'' []) ''-'' []
              @ ''.com''"
      and j: "listing =
              (if \<exists>w \<in> set [''ai'', ''ml'', ''machine learning'', ''llm''].
                    sublist w (py_lower description)
               then ''ML Engineering Intern, AI Research Intern''
               else if \<exists>w \<in> set [''developer'', ''code'', ''software''].
                    sublist w (py_lower description)
               then ''Software Engineering Intern, Product Engineering Intern''
               else if \<exists>w \<in> set [''data'', ''analytics'']. sublist w (py_lower description)
               then ''Data Science Intern, Analytics Intern''
               else ''Software Engineering Intern, Product Intern'')"
    have dm': "domain = extract_domain py_lower name"
      using dm by (simp only: extract_domain_unfold)
    have j': "listing = pattern_jobs (py_lower description)"
      unfolding j pattern_jobs_def list_ex_contains by (rule refl)
    show "enrich_company py_lower overrides company =
              Inr (company
                 (''founder_first_name'' \<mapsto> ''Team'',
                  ''founder_last_name'' \<mapsto> [],
                  ''founder_email'' \<mapsto> ''hello@'' @ domain,
                  ''founder_linkedin'' \<mapsto> [],
                  ''website'' \<mapsto> domain,
                  ''job_openings'' \<mapsto> listing,
                  ''funding_stage'' \<mapsto> ''Seed'',
                  ''amount_raised'' \<mapsto> ''$1.5M'',
                  ''date_raised'' \<mapsto> ''Summer 2025'',
                  ''data_quality'' \<mapsto> PATTERN_MARK))"
      unfolding dm' j' using assms t d by (rule enrich_company_pattern)
  qed
qed

text \<open>Claim C1 on two rows of the input of \<open>main.py\<close>, one for each branch, against the
  table of \<open>main.py\<close>; the rows are ASCII, on which \<open>str.lower\<close> is \<open>lower\<close>.\<close>

theorem enrich_company_spec_witness:
  "nox_row ''Company_Name'' = Some ''Nox Metals, Inc.'' \<and>
   REAL_FOUNDERS ''Nox Metals, Inc.'' = None \<and>
   nox_row ''company_description'' = Some ''Software for metal suppliers'' \<and>
   enrich_company lower REAL_FOUNDERS nox_row = Inr nox_enriched \<and>
   blue_row ''Company_Name'' = Some ''Blue'' \<and>
   REAL_FOUNDERS ''Blue'' \<noteq> None \<and>
   enrich_company lower REAL_FOUNDERS blue_row = Inr blue_enriched"
proof -
  have n: "nox_row ''Company_Name'' = Some ''Nox Metals, Inc.''"
    and d: "nox_row ''company_description'' = Some ''Software for metal suppliers''"
    by (simp_all add: nox_row_def)
  have dm: "''noxmetals.com'' =
      replace (replace (replace (replace (replace (replace (replace (lower ''Nox Metals, Inc.'')
                '' '' []) '','' []) ''.'' []) ''inc'' []) ''llc'' []) ''the'' []) ''-'' []
              @ ''.com''"
    by code_simp
  have j: "''Software Engineering Intern, Product Engineering Intern'' =
      (if \<exists>w \<in> set [''ai'', ''ml'', ''machine learning'', ''llm''].
            sublist w (lower ''Software for metal suppliers'')
       then ''ML Engineering Intern, AI Research Intern''
       else if \<exists>w \<in> set [''developer'', ''code'', ''software''].
            sublist w (lower ''Software for metal suppliers'')
       then ''Software Engineering Intern, Product Engineering Intern''
       else if \<exists>w \<in> set [''data'', ''analytics'']. sublist w (lower ''Software for metal suppliers'')
       then ''Data Science Intern, Analytics Intern''
       else ''Software Engineering Intern, Product Intern'')"
    by code_simp
  note s1 = enrich_company_spec [where company = nox_row and overrides = REAL_FOUNDERS
      and py_lower = lower, OF n,
      THEN conjunct2, rule_format, of "''Software for metal suppliers''" "''noxmetals.com''"
      "''Software Engineering Intern, Product Engineering Intern''"]
  have p: "enrich_company lower REAL_FOUNDERS nox_row = Inr nox_enriched"
    unfolding nox_enriched_def
    using s1 [OF conjI [OF REAL_FOUNDERS_nox conjI [OF d conjI [OF dm j]]]]
    by simp
  have b: "blue_row ''Company_Name'' = Some ''Blue''"
    by (simp add: blue_row_def)
  note s2 = enrich_company_spec [where company = blue_row and overrides = REAL_FOUNDERS
      and py_lower = lower, OF b,
      THEN conjunct1, rule_format, OF REAL_FOUNDERS_blue]
  have r: "enrich_company lower REAL_FOUNDERS blue_row = Inr blue_enriched"
    unfolding blue_enriched_def using s2 by simp
  show ?thesis
    using n d p b r REAL_FOUNDERS_nox REAL_FOUNDERS_blue by simp
qed

text \<open>
  Claim C6 says that a row which lacks an expected column is enriched with the empty
  string in its place. The row \<open>short_row\<close> has no \<open>company_description\<close> and its name is
  not a key of \<open>REAL_FOUNDERS\<close>: \<open>enrich_company\<close> raises \<open>KeyError\<close> on it.
\<close>

theorem enrich_company_short_row:
  "enrich_company py_lower REAL_FOUNDERS short_row = Inl KeyError"
proof -
  have "map_of REAL_FOUNDERS_entries ''Acme'' = None"
    by code_simp
  then show ?thesis
    by (simp add: enrich_company_def short_row_def REAL_FOUNDERS_def)
qed

text \<open>The same holds of every row without a name, whatever the table.\<close>

lemma enrich_company_no_name:
  "company ''Company_Name'' = None \<Longrightarrow>
   enrich_company py_lower overrides company = Inl KeyError"
  by (simp add: enrich_company_def)

text \<open>
  Claim C10: when \<open>enrich_company\<close> returns a row, every key outside the ten enriched
  fields has the value it had in the input, and every key of the input is a key of the
  result.
\<close>

theorem enrich_company_frame:
  assumes "enrich_company py_lower overrides company = Inr r"
  shows "(k \<notin> enriched_fields \<longrightarrow> r k = company k) \<and> (k \<in> dom company \<longrightarrow> k \<in> dom r)"
  using assms
  by (auto simp: enrich_company_def enriched_fields_def Let_def split: option.splits)

text \<open>Claim C10 on the column \<open>Batch\<close> of a sample row.\<close>

theorem enrich_company_frame_witness:
  "enrich_company lower REAL_FOUNDERS nox_row = Inr nox_enriched \<and>
   ''Batch'' \<notin> enriched_fields \<and> ''Batch'' \<in> dom nox_row \<and>
   nox_enriched ''Batch'' = nox_row ''Batch'' \<and> ''Batch'' \<in> dom nox_enriched"
proof -
  have a: "''Batch'' \<notin> enriched_fields" by (simp add: enriched_fields_def)
  have b: "''Batch'' \<in> dom nox_row" by (simp add: nox_row_def)
  from enrich_company_frame [OF nox_row_enriched, of "''Batch''"] a b nox_row_enriched
  show ?thesis by simp
qed

section \<open>Classification and the update of an enriched file\<close>

lemma is_pattern_data_batch_eq: "is_pattern_data_batch = is_pattern_data"
  by (intro ext) (simp add: is_pattern_data_batch_def is_pattern_data_def)

lemma is_pattern_data_unfold:
  "is_pattern_data py_strip company \<longleftrightarrow>
      py_strip (get company ''founder_first_name'' []) = [] \<or>
      py_strip (get company ''founder_first_name'' []) = ''Team'' \<or>
      prefix ''hello@'' (py_strip (get company ''founder_email'' [])) \<or>
      py_strip (get company ''founder_linkedin'' []) = []"
  by (auto simp: is_pattern_data_def Let_def startswith_prefix)

text \<open>The dictionary that \<open>update_company_with_real_data\<close> returns has every key of the
  row, so \<open>company.update\<close> leaves the row equal to it.\<close>

lemma map_add_update_self: "dom m \<subseteq> dom m' \<Longrightarrow> m ++ m' = m'"
  by (rule ext) (auto simp: map_add_def split: option.splits)

lemma dom_update_company: "dom company \<subseteq> dom (update_company_with_real_data company d)"
  by (auto simp: update_company_with_real_data_def)

lemma dom_update_company_batch:
  "dom company \<subseteq> dom (update_company_with_real_data_batch company d)"
  by (auto simp: update_company_with_real_data_batch_def Let_def)

lemma merge_update_eq:
  "merge_update py_strip tbl company =
     (case tbl (get company ''Company_Name'' []) of
        None \<Rightarrow> company
      | Some d \<Rightarrow> if is_pattern_data py_strip company
                 then update_company_with_real_data company d else company)"
  by (simp add: merge_update_def map_add_update_self [OF dom_update_company]
           split: option.splits)

lemma merge_update_batch_eq:
  "merge_update_batch py_strip tbl company =
     (case tbl (get company ''Company_Name'' []) of
        None \<Rightarrow> company
      | Some d \<Rightarrow> if is_pattern_data_batch py_strip company
                 then update_company_with_real_data_batch company d else company)"
  by (simp add: merge_update_batch_def map_add_update_self [OF dom_update_company_batch]
           split: option.splits)

text \<open>
  Claim C2, as stated, makes a row \<open>PATTERN\<close> if and only if its first name is empty or
  \<open>Team\<close>, or its email starts with \<open>hello@\<close>, or its LinkedIn is empty. The row
  \<open>padded_row\<close> meets none of the four conditions, and \<open>is_pattern_data\<close> holds of it: the
  first name is \<open>Team\<close> followed by a space, which the code strips before it compares.
\<close>

theorem padded_row_pattern:
  "is_pattern_data strip padded_row \<and>
   padded_row ''founder_first_name'' = Some ''Team '' \<and>
   ''Team '' \<noteq> [] \<and> ''Team '' \<noteq> ''Team'' \<and>
   padded_row ''founder_email'' = Some ''ann@acme.com'' \<and>
   \<not> startswith ''ann@acme.com'' ''hello@'' \<and>
   padded_row ''founder_linkedin'' = Some ''linkedin.com/in/ann'' \<and>
   ''linkedin.com/in/ann'' \<noteq> []"
  by code_simp

text \<open>
  Claim C2, amended: for every record, \<open>is_pattern_data\<close> holds (the record is \<open>PATTERN\<close>)
  if and only if the first name, stripped of leading and trailing whitespace, is empty or
  \<open>Team\<close>, or the email, stripped likewise, starts with \<open>hello@\<close>, or the LinkedIn,
  stripped likewise, is empty; otherwise the record is \<open>REAL\<close>. Stripping is \<open>py_strip\<close>,
  whatever it removes, so the statement holds of \<open>str.strip\<close>; a field that the record has
  no key for is read as the empty string. This predicate is the sole rule of
  re-classification: the predicate of \<open>batch_extract_founders.py\<close> is the same function,
  and in the loop of each script a row whose name has an entry is overwritten with the
  entry if the predicate holds of it, and is left as it is otherwise.
\<close>

theorem is_pattern_data_iff:
  "(is_pattern_data py_strip company \<longleftrightarrow>
      py_strip (get company ''founder_first_name'' []) = [] \<or>
      py_strip (get company ''founder_first_name'' []) = ''Team'' \<or>
      prefix ''hello@'' (py_strip (get company ''founder_email'' [])) \<or>
      py_strip (get company ''founder_linkedin'' []) = []) \<and>
   is_pattern_data_batch py_strip company = is_pattern_data py_strip company \<and>
   merge_update py_strip tbl company =
     (case tbl (get company ''Company_Name'' []) of
        None \<Rightarrow> company
      | Some d \<Rightarrow> if is_pattern_data py_strip company
                 then update_company_with_real_data company d else company) \<and>
   merge_update_batch py_strip tbl_b company =
     (case tbl_b (get company ''Company_Name'' []) of
        None \<Rightarrow> company
      | Some d \<Rightarrow> if is_pattern_data py_strip company
                 then update_company_with_real_data_batch company d else company)"
proof (intro conjI)
  show "is_pattern_data py_strip company \<longleftrightarrow>
      py_strip (get company ''founder_first_name'' []) = [] \<or>
      py_strip (get company ''founder_first_name'' []) = ''Team'' \<or>
      prefix ''hello@'' (py_strip (get company ''founder_email'' [])) \<or>
      py_strip (get company ''founder_linkedin'' []) = []"
    by (rule is_pattern_data_unfold)
  show "is_pattern_data_batch py_strip company = is_pattern_data py_strip company"
    by (simp add: is_pattern_data_batch_eq)
  show "merge_update py_strip tbl company =
     (case tbl (get company ''Company_Name'' []) of
        None \<Rightarrow> company
      | Some d \<Rightarrow> if is_pattern_data py_strip company
                 then update_company_with_real_data company d else company)"
    by (rule merge_update_eq)
  show "merge_update_batch py_strip tbl_b company =
     (case tbl_b (get company ''Company_Name'' []) of
        None \<Rightarrow> company
      | Some d \<Rightarrow> if is_pattern_data py_strip company
                 then update_company_with_real_data_batch company d else company)"
    unfolding merge_update_batch_eq is_pattern_data_batch_eq by (rule refl)
qed

text \<open>Claim C2, amended, on the row with the padded name, which is ASCII, where
  \<open>str.strip\<close> is \<open>strip\<close>: the stripped first name is \<open>Team\<close>, both predicates hold of
  the row, and the loop, which has no entry for its name, leaves it as it is.\<close>

theorem is_pattern_data_iff_witness:
  "strip (get padded_row ''founder_first_name'' []) = ''Team'' \<and>
   is_pattern_data strip padded_row \<and>
   is_pattern_data_batch strip padded_row \<and>
   merge_update strip REAL_FOUNDER_DATA padded_row = padded_row"
proof -
  have t: "strip (get padded_row ''founder_first_name'' []) = ''Team''"
    by code_simp
  have "get padded_row ''Company_Name'' [] = ''Acme''"
    by (simp add: padded_row_def get_def)
  moreover have "map_of REAL_FOUNDER_DATA_entries ''Acme'' = None"
    by code_simp
  ultimately have n: "REAL_FOUNDER_DATA (get padded_row ''Company_Name'' []) = None"
    by (simp add: REAL_FOUNDER_DATA_def)
  show ?thesis
    using is_pattern_data_iff [where py_strip = strip and company = padded_row
        and tbl = REAL_FOUNDER_DATA] t n
    by simp
qed

text \<open>A row that lacks the founder columns is read with empty strings in their place:
  \<open>is_pattern_data\<close> holds of it, and no error is raised.\<close>

lemma is_pattern_data_short_row:
  "py_strip [] = [] \<Longrightarrow> is_pattern_data py_strip short_row"
  by (simp add: is_pattern_data_unfold short_row_def get_def)

section \<open>Classification after enrichment\<close>

lemma enriched_pattern_is_pattern:
  assumes "company ''Company_Name'' = Some name" "overrides name = None"
    "enrich_company py_lower overrides company = Inr r" "py_strip ''Team'' = ''Team''"
  shows "is_pattern_data py_strip r"
proof -
  from assms obtain d where "company ''company_description'' = Some d"
    by (auto simp: enrich_company_def Let_def split: option.splits)
  with assms have "r ''founder_first_name'' = Some ''Team''"
    by (auto simp: enrich_company_pattern)
  with assms(4) show ?thesis
    by (simp add: is_pattern_data_unfold get_def)
qed

lemma enriched_real_is_pattern:
  assumes "company ''Company_Name'' = Some name" "overrides name = Some data"
    "enrich_company py_lower overrides company = Inr r"
  shows "is_pattern_data py_strip r \<longleftrightarrow>
      py_strip (founder_first data) = [] \<or> py_strip (founder_first data) = ''Team'' \<or>
      prefix ''hello@'' (py_strip (founder_email data)) \<or>
      py_strip (founder_linkedin data) = []"
proof -
  from assms have "r ''founder_first_name'' = Some (founder_first data)"
    "r ''founder_email'' = Some (founder_email data)"
    "r ''founder_linkedin'' = Some (founder_linkedin data)"
    by (auto simp: enrich_company_real)
  then show ?thesis
    by (auto simp add: is_pattern_data_unfold get_def)
qed

text \<open>Every entry of the table of \<open>main.py\<close> is written in ASCII, and none is pattern
  data.\<close>

lemma REAL_FOUNDERS_all_real:
  assumes "REAL_FOUNDERS name = Some data"
  shows "ascii (founder_first data) \<and> ascii (founder_email data) \<and>
        ascii (founder_linkedin data) \<and>
        strip (founder_first data) \<noteq> [] \<and> strip (founder_first data) \<noteq> ''Team'' \<and>
        \<not> prefix ''hello@'' (strip (founder_email data)) \<and>
        strip (founder_linkedin data) \<noteq> []"
proof -
  have "list_all (\<lambda>(k, d). ascii (founder_first d) \<and> ascii (founder_email d) \<and>
        ascii (founder_linkedin d) \<and>
        strip (founder_first d) \<noteq> [] \<and> strip (founder_first d) \<noteq> ''Team'' \<and>
        \<not> prefix ''hello@'' (strip (founder_email d)) \<and>
        strip (founder_linkedin d) \<noteq> []) REAL_FOUNDERS_entries"
    by code_simp
  moreover from assms have "(name, data) \<in> set REAL_FOUNDERS_entries"
    by (simp add: REAL_FOUNDERS_def map_of_SomeD)
  ultimately show ?thesis
    by (auto simp: list_all_iff)
qed

lemma strip_Team: "ascii ''Team'' \<and> strip ''Team'' = ''Team''"
  by code_simp

text \<open>
  Claim C3: \<open>enrich_company\<close> reads the table \<open>REAL_FOUNDERS\<close> of \<open>main.py\<close>. For every row
  with a name on which it returns, the enriched row is classified \<open>REAL\<close>
  (\<open>is_pattern_data\<close> does not hold of it) if and only if the name is a key of the table.
  Lowercasing is any function; stripping is any function that does on a string of ASCII
  characters what \<open>str.strip\<close> does on it.
\<close>

theorem classify_enrich_REAL_FOUNDERS:
  assumes "\<forall>s. ascii s \<longrightarrow> py_strip s = strip s"
    and "company ''Company_Name'' = Some name"
    and "enrich_company py_lower REAL_FOUNDERS company = Inr r"
  shows "\<not> is_pattern_data py_strip r \<longleftrightarrow> name \<in> dom REAL_FOUNDERS"
proof (cases "REAL_FOUNDERS name")
  case None
  from assms(1) strip_Team have "py_strip ''Team'' = ''Team''" by simp
  with None assms(2,3) show ?thesis
    by (auto simp: enriched_pattern_is_pattern)
next
  case (Some data)
  from REAL_FOUNDERS_all_real [OF Some] assms(1)
  have "py_strip (founder_first data) \<noteq> [] \<and> py_strip (founder_first data) \<noteq> ''Team'' \<and>
        \<not> prefix ''hello@'' (py_strip (founder_email data)) \<and>
        py_strip (founder_linkedin data) \<noteq> []"
    by simp
  with Some assms(2,3) show ?thesis
    by (auto simp: enriched_real_is_pattern)
qed

text \<open>Claim C3 on a row of each kind; the rows are ASCII, where \<open>str.lower\<close> is \<open>lower\<close>
  and \<open>str.strip\<close> is \<open>strip\<close>.\<close>

theorem classify_enrich_REAL_FOUNDERS_witness:
  "nox_row ''Company_Name'' = Some ''Nox Metals, Inc.'' \<and>
   enrich_company lower REAL_FOUNDERS nox_row = Inr nox_enriched \<and>
   ''Nox Metals, Inc.'' \<notin> dom REAL_FOUNDERS \<and>
   is_pattern_data strip nox_enriched \<and>
   blue_row ''Company_Name'' = Some ''Blue'' \<and>
   enrich_company lower REAL_FOUNDERS blue_row = Inr blue_enriched \<and>
   ''Blue'' \<in> dom REAL_FOUNDERS \<and>
   \<not> is_pattern_data strip blue_enriched"
proof -
  have h: "\<forall>s. ascii s \<longrightarrow> strip s = strip s" by simp
  have n: "nox_row ''Company_Name'' = Some ''Nox Metals, Inc.''"
    by (simp add: nox_row_def)
  have b: "blue_row ''Company_Name'' = Some ''Blue''"
    by (simp add: blue_row_def)
  have nk: "''Nox Metals, Inc.'' \<notin> dom REAL_FOUNDERS"
    by (simp add: REAL_FOUNDERS_nox dom_def)
  have bk: "''Blue'' \<in> dom REAL_FOUNDERS"
    by (simp add: REAL_FOUNDERS_blue dom_def)
  have 1: "is_pattern_data strip nox_enriched"
    using classify_enrich_REAL_FOUNDERS [OF h n nox_row_enriched] nk by simp
  have 2: "\<not> is_pattern_data strip blue_enriched"
    using classify_enrich_REAL_FOUNDERS [OF h b blue_row_enriched] bk by simp
  show ?thesis
    using n b nk bk 1 2 nox_row_enriched blue_row_enriched by simp
qed

section \<open>Idempotence and frame of the update\<close>

lemma update_company_name:
  "get (update_company_with_real_data company d) ''Company_Name'' [] =
     get company ''Company_Name'' []"
  by (simp add: update_company_with_real_data_def get_upd)

lemma update_company_batch_name:
  "get (update_company_with_real_data_batch company d) ''Company_Name'' [] =
     get company ''Company_Name'' []"
  by (simp add: update_company_with_real_data_batch_def get_upd Let_def)

lemma update_company_twice:
  "update_company_with_real_data (update_company_with_real_data company d) d =
     update_company_with_real_data company d"
  by (rule ext) (simp add: update_company_with_real_data_def)

lemma update_company_batch_twice:
  "update_company_with_real_data_batch (update_company_with_real_data_batch company d) d =
     update_company_with_real_data_batch company d"
  by (rule ext) (simp add: update_company_with_real_data_batch_def get_upd Let_def)

lemma REAL_FOUNDER_DATA_freya:
  "REAL_FOUNDER_DATA ''Freya'' =
     Some \<lparr>founder_first = ''Tunga'', founder_last = ''Bayrak'',
       founder_email = ''tunga@freyavoice.ai'',
       founder_linkedin = ''linkedin.com/in/tunga-bayrak'',
       website = ''freyavoice.ai'',
       jobs = ''ML Engineering Intern, AI Research Intern'',
       funding_stage = ''Seed'', amount_raised = ''$1.5M'', date_raised = ''Summer 2025''\<rparr>"
proof -
  have "map_of REAL_FOUNDER_DATA_entries ''Freya'' =
     Some \<lparr>founder_first = ''Tunga'', founder_last = ''Bayrak'',
       founder_email = ''tunga@freyavoice.ai'',
       founder_linkedin = ''linkedin.com/in/tunga-bayrak'',
       website = ''freyavoice.ai'',
       jobs = ''ML Engineering Intern, AI Research Intern'',
       funding_stage = ''Seed'', amount_raised = ''$1.5M'', date_raised = ''Summer 2025''\<rparr>"
    by code_simp
  then show ?thesis by (simp add: REAL_FOUNDER_DATA_def)
qed

lemma REAL_FOUNDER_DATA_batch_freya:
  "REAL_FOUNDER_DATA_batch ''Freya'' =
     Some \<lparr>founder_first = ''Tunga'', founder_last = ''Bayrak'',
       founder_email = ''tunga@freyavoice.ai'',
       founder_linkedin = ''linkedin.com/in/tunga-bayrak'',
       website = ''freyavoice.ai''\<rparr>"
proof -
  have "map_of REAL_FOUNDER_DATA_batch_entries ''Freya'' =
     Some \<lparr>founder_first = ''Tunga'', founder_last = ''Bayrak'',
       founder_email = ''tunga@freyavoice.ai'',
       founder_linkedin = ''linkedin.com/in/tunga-bayrak'',
       website = ''freyavoice.ai''\<rparr>"
    by code_simp
  then show ?thesis by (simp add: REAL_FOUNDER_DATA_batch_def)
qed

lemma freya_name: "get freya_row ''Company_Name'' [] = ''Freya''"
  by (simp add: freya_row_def get_def)

lemma freya_pattern: "is_pattern_data strip freya_row"
  by code_simp

lemma freya_merge: "merge_update strip REAL_FOUNDER_DATA freya_row = freya_updated"
  by (simp add: merge_update_eq freya_name REAL_FOUNDER_DATA_freya freya_pattern
        update_company_with_real_data_def freya_updated_def)

lemma freya_merge_batch:
  "merge_update_batch strip REAL_FOUNDER_DATA_batch freya_row = freya_updated_batch"
proof -
  have "get freya_row ''job_openings'' ''Software Engineering Intern, Product Intern'' =
      ''Data Science Intern, Analytics Intern''"
    "get freya_row ''funding_stage'' ''Seed'' = ''Seed''"
    "get freya_row ''amount_raised'' ''$1.5M'' = ''$1.5M''"
    "get freya_row ''date_raised'' ''Summer 2025'' = ''Summer 2025''"
    by (simp_all add: freya_row_def get_def)
  then show ?thesis
    by (simp add: merge_update_batch_eq freya_name REAL_FOUNDER_DATA_batch_freya freya_pattern
        is_pattern_data_batch_eq update_company_with_real_data_batch_def freya_updated_batch_def)
qed

lemma freya_updated_real: "\<not> is_pattern_data strip freya_updated"
  by code_simp

lemma freya_updated_differs: "freya_updated \<noteq> freya_row"
proof
  assume "freya_updated = freya_row"
  then have "freya_updated ''website'' = freya_row ''website''" by simp
  then show False by (simp add: freya_updated_def freya_row_def)
qed

text \<open>
  Claim C4: \<open>merge_update\<close> is idempotent: for every row and every override table,
  applying it twice with the same table gives the row that applying it once gives. This
  holds of the loop body of \<open>update_with_real_founders.py\<close> and of the one of
  \<open>batch_extract_founders.py\<close>, whatever \<open>str.strip\<close> removes.
\<close>

theorem merge_update_idempotent:
  "merge_update py_strip overrides (merge_update py_strip overrides r) =
     merge_update py_strip overrides r \<and>
   merge_update_batch py_strip overrides_b (merge_update_batch py_strip overrides_b r) =
     merge_update_batch py_strip overrides_b r"
proof
  show "merge_update py_strip overrides (merge_update py_strip overrides r) =
     merge_update py_strip overrides r"
    by (cases "overrides (get r ''Company_Name'' [])")
       (simp_all add: merge_update_eq update_company_name update_company_twice)
  show "merge_update_batch py_strip overrides_b (merge_update_batch py_strip overrides_b r) =
     merge_update_batch py_strip overrides_b r"
    by (cases "overrides_b (get r ''Company_Name'' [])")
       (simp_all add: merge_update_batch_eq update_company_batch_name update_company_batch_twice)
qed

text \<open>Claim C4 on a row that the first application changes.\<close>

theorem merge_update_idempotent_witness:
  "merge_update strip REAL_FOUNDER_DATA freya_row = freya_updated \<and>
   freya_updated \<noteq> freya_row \<and>
   merge_update strip REAL_FOUNDER_DATA freya_updated = freya_updated \<and>
   merge_update_batch strip REAL_FOUNDER_DATA_batch freya_row = freya_updated_batch \<and>
   merge_update_batch strip REAL_FOUNDER_DATA_batch freya_updated_batch = freya_updated_batch"
  using merge_update_idempotent [where py_strip = strip and overrides = REAL_FOUNDER_DATA
      and r = freya_row and overrides_b = REAL_FOUNDER_DATA_batch]
    freya_updated_differs
  by (simp add: freya_merge freya_merge_batch)

text \<open>
  Claim C9: \<open>merge_update\<close> leaves a row as it is unless \<open>is_pattern_data\<close> holds of it and
  its name is a key of the override table; in particular a row that is classified \<open>REAL\<close>
  is returned with every field as it was. This holds of both loop bodies, whatever
  \<open>str.strip\<close> removes: the classification is the one that the script itself makes.
\<close>

theorem merge_update_unchanged:
  "(\<not> (is_pattern_data py_strip r \<and> get r ''Company_Name'' [] \<in> dom overrides) \<longrightarrow>
      merge_update py_strip overrides r = r) \<and>
   (\<not> is_pattern_data py_strip r \<longrightarrow> merge_update py_strip overrides r = r) \<and>
   (\<not> (is_pattern_data_batch py_strip r \<and> get r ''Company_Name'' [] \<in> dom overrides_b) \<longrightarrow>
      merge_update_batch py_strip overrides_b r = r) \<and>
   (\<not> is_pattern_data_batch py_strip r \<longrightarrow> merge_update_batch py_strip overrides_b r = r)"
  by (auto simp: merge_update_eq merge_update_batch_eq split: option.splits)

text \<open>Claim C9 on a row that is \<open>REAL\<close> and whose name is a key of both tables.\<close>

theorem merge_update_unchanged_witness:
  "\<not> is_pattern_data strip freya_updated \<and>
   get freya_updated ''Company_Name'' [] \<in> dom REAL_FOUNDER_DATA \<and>
   merge_update strip REAL_FOUNDER_DATA freya_updated = freya_updated \<and>
   \<not> is_pattern_data_batch strip freya_updated \<and>
   merge_update_batch strip REAL_FOUNDER_DATA_batch freya_updated = freya_updated"
proof -
  have "get freya_updated ''Company_Name'' [] = ''Freya''"
    by (simp add: freya_updated_def freya_row_def get_def)
  then have "get freya_updated ''Company_Name'' [] \<in> dom REAL_FOUNDER_DATA"
    by (simp add: REAL_FOUNDER_DATA_freya dom_def)
  then show ?thesis
    using merge_update_unchanged [where py_strip = strip and r = freya_updated
        and overrides = REAL_FOUNDER_DATA and overrides_b = REAL_FOUNDER_DATA_batch]
      freya_updated_real
    by (simp add: is_pattern_data_batch_eq)
qed

section \<open>The matcher\<close>

text \<open>What a match consumes is a prefix of the input made of characters that the
  pattern can consume; a pattern changes only its own groups; and a group that every match
  runs through holds a string that the expression inside it matched.\<close>

lemma take_le_takeWhile:
  "k \<le> length (takeWhile P s) \<Longrightarrow> x \<in> set (take k s) \<Longrightarrow> P x"
proof -
  assume k: "k \<le> length (takeWhile P s)" and x: "x \<in> set (take k s)"
  have "take k s = take k (takeWhile P s @ dropWhile P s)" by simp
  also have "\<dots> = take k (takeWhile P s)" using k by (simp only: take_append) simp
  finally have "x \<in> set (takeWhile P s)" using x by (metis in_set_takeD)
  then show "P x" by (rule set_takeWhileD [THEN conjunct2])
qed

lemma lit_eq_can:
  "lit_eq ic w l \<Longrightarrow> c \<in> set w \<Longrightarrow> can ic (Lit l) c"
  by (auto simp: lit_eq_def lower_def split: if_splits) (metis image_eqI list.set_map)

lemma rmatch_consumes:
  "(g', s') \<in> set (rmatch ic r (g, s)) \<Longrightarrow> \<exists>w. s = w @ s' \<and> (\<forall>c \<in> set w. can ic r c)"
proof (induction r arbitrary: g s g' s')
  case (Lit l)
  then have e: "s' = drop (length l) s" and q: "lit_eq ic (take (length l) s) l"
    by (auto split: if_splits)
  have "s = take (length l) s @ s'" by (simp add: e)
  moreover have "\<forall>c \<in> set (take (length l) s). can ic (Lit l) c"
    using q by (blast intro: lit_eq_can)
  ultimately show ?case by blast
next
  case (One cs)
  then obtain c where "s = c # s'" "in_cset ic cs c"
    by (auto split: list.splits if_splits)
  then have "s = [c] @ s' \<and> (\<forall>x \<in> set [c]. can ic (One cs) x)" by simp
  then show ?case by blast
next
  case (Many1 cs)
  then have "\<exists>k. k \<le> length (takeWhile (in_cset ic cs) s) \<and> s' = drop k s"
    by (auto intro: less_imp_le)
  then obtain k where k: "k \<le> length (takeWhile (in_cset ic cs) s)" and e: "s' = drop k s"
    by blast
  have "s = take k s @ s'" by (simp add: e)
  moreover have "\<forall>c \<in> set (take k s). can ic (Many1 cs) c"
    using take_le_takeWhile [OF k] by simp
  ultimately show ?case by blast
next
  case (Opt r)
  then consider "(g', s') \<in> set (rmatch ic r (g, s))" | "s' = s" by auto
  then show ?case
  proof cases
    case 1
    from Opt.IH [OF 1] show ?thesis by simp
  next
    case 2
    then have "s = [] @ s' \<and> (\<forall>c \<in> set []. can ic (Opt r) c)" by simp
    then show ?thesis by blast
  qed
next
  case (Seq r1 r2)
  then obtain g1 s1 where 1: "(g1, s1) \<in> set (rmatch ic r1 (g, s))"
    and 2: "(g', s') \<in> set (rmatch ic r2 (g1, s1))"
    by auto
  from Seq.IH(1) [OF 1] obtain w1 where w1: "s = w1 @ s1" "\<forall>c \<in> set w1. can ic r1 c" by blast
  from Seq.IH(2) [OF 2] obtain w2 where w2: "s1 = w2 @ s'" "\<forall>c \<in> set w2. can ic r2 c" by blast
  have "s = (w1 @ w2) @ s' \<and> (\<forall>c \<in> set (w1 @ w2). can ic (Seq r1 r2) c)"
    using w1 w2 by auto
  then show ?case by blast
next
  case (Alt r1 r2)
  then consider "(g', s') \<in> set (rmatch ic r1 (g, s))" | "(g', s') \<in> set (rmatch ic r2 (g, s))"
    by auto
  then show ?case
  proof cases
    case 1 from Alt.IH(1) [OF 1] show ?thesis by auto
  next
    case 2 from Alt.IH(2) [OF 2] show ?thesis by auto
  qed
next
  case (Grp n r)
  then obtain g0 where "(g0, s') \<in> set (rmatch ic r (g, s))" by auto
  from Grp.IH [OF this] show ?case by simp
qed

lemma rmatch_frame:
  "(g', s') \<in> set (rmatch ic r (g, s)) \<Longrightarrow> n \<notin> groups r \<Longrightarrow> g' n = g n"
proof (induction r arbitrary: g s g' s')
  case (Seq r1 r2)
  then obtain g1 s1 where 1: "(g1, s1) \<in> set (rmatch ic r1 (g, s))"
    and 2: "(g', s') \<in> set (rmatch ic r2 (g1, s1))"
    by auto
  from Seq.IH(1) [OF 1] Seq.IH(2) [OF 2] Seq.prems(2) show ?case by simp
next
  case (Grp m r)
  then obtain g0 where 0: "(g0, s') \<in> set (rmatch ic r (g, s))"
    and e: "g' = g0(m \<mapsto> take (length s - length s') s)" by auto
  from Grp.IH [OF 0] Grp.prems(2) e show ?case by simp
qed (auto split: if_splits list.splits)

lemma rmatch_group:
  "grp_of r n = Some r' \<Longrightarrow> (g', s') \<in> set (rmatch ic r (g, s)) \<Longrightarrow>
   \<exists>w g0 g1 s1. g' n = Some w \<and> (g1, s1) \<in> set (rmatch ic r' (g0, w @ s1))"
proof (induction r arbitrary: g s g' s')
  case (Seq r1 r2)
  from Seq.prems(2) obtain g1 s1 where 1: "(g1, s1) \<in> set (rmatch ic r1 (g, s))"
    and 2: "(g', s') \<in> set (rmatch ic r2 (g1, s1))"
    by auto
  show ?case
  proof (cases "grp_of r2 n")
    case (Some x)
    with Seq.prems(1) have "grp_of r2 n = Some r'" by simp
    from Seq.IH(2) [OF this 2] show ?thesis .
  next
    case None
    with Seq.prems(1) have n: "n \<notin> groups r2" and "grp_of r1 n = Some r'"
      by (auto split: if_splits)
    from Seq.IH(1) [OF this(2) 1] rmatch_frame [OF 2 n] show ?thesis by simp
  qed
next
  case (Grp m r)
  from Grp.prems(2) obtain g0 where 0: "(g0, s') \<in> set (rmatch ic r (g, s))"
    and e: "g' = g0(m \<mapsto> take (length s - length s') s)" by auto
  show ?case
  proof (cases "m = n")
    case True
    with Grp.prems(1) have r: "r' = r" by simp
    from rmatch_consumes [OF 0] obtain w where w: "s = w @ s'" by blast
    then have "g' n = Some w" using e True by simp
    with 0 w r show ?thesis by blast
  next
    case False
    with Grp.prems(1) have "grp_of r n = Some r'" by simp
    from Grp.IH [OF this 0] e False show ?thesis by simp
  qed
qed simp_all

lemma search_rmatch:
  "search ic r s = Some m \<Longrightarrow> \<exists>t s'. (m, s') \<in> set (rmatch ic r (Map.empty, t))"
proof (induction s)
  case Nil
  show ?case
  proof (cases "rmatch ic r (Map.empty, [])")
    case Nil
    with Nil.prems show ?thesis by simp
  next
    case (Cons a list)
    with Nil.prems have "(m, snd a) \<in> set (rmatch ic r (Map.empty, []))"
      by (cases a) auto
    then show ?thesis by blast
  qed
next
  case (Cons c cs)
  show ?case
  proof (cases "rmatch ic r (Map.empty, c # cs)")
    case Nil
    with Cons show ?thesis by simp
  next
    case (Cons a list)
    with Cons.prems have "(m, snd a) \<in> set (rmatch ic r (Map.empty, c # cs))"
      by (cases a) auto
    then show ?thesis by blast
  qed
qed

section \<open>The slug of a profile link\<close>

lemma slug_here_iff:
  "slug_here t \<longleftrightarrow> prefix ''/companies/'' t \<and> slug_of t \<noteq> []"
proof
  assume "slug_here t"
  then obtain c rest where "t = ''/companies/'' @ c # rest" "c \<noteq> CHR ''/''"
    by (auto simp: slug_here_def)
  then show "prefix ''/companies/'' t \<and> slug_of t \<noteq> []"
    by (simp add: slug_of_def)
next
  assume a: "prefix ''/companies/'' t \<and> slug_of t \<noteq> []"
  then obtain u where u: "t = ''/companies/'' @ u" by (auto simp: prefix_def)
  with a have "takeWhile (\<lambda>x. x \<noteq> CHR ''/'') u \<noteq> []" by (simp add: slug_of_def)
  then obtain c rest where "u = c # rest" "c \<noteq> CHR ''/''"
    by (cases u) (auto split: if_splits)
  with u show "slug_here t" by (auto simp: slug_here_def)
qed

lemma rev_upt_1: "0 < n \<Longrightarrow> rev [1 ..< Suc n] = n # rev [1 ..< n]"
  by simp

lemma rmatch_Lit_False:
  "rmatch False (Lit l) (g, s) = (if prefix l s then [(g, drop (length l) s)] else [])"
proof -
  have "length l \<le> length s \<and> take (length l) s = l \<longleftrightarrow> prefix l s"
    by (metis append_take_drop_id prefix_def append_eq_conv_conj prefix_length_le)
  then show ?thesis by (simp add: lit_eq_def)
qed

lemma rmatch_group_many1:
  "rmatch ic (Grp n (Many1 cs)) (g, u) =
     map (\<lambda>k. (g(n \<mapsto> take k u), drop k u))
       (rev [1 ..< Suc (length (takeWhile (in_cset ic cs) u))])"
proof -
  have "k \<in> set (rev [1 ..< Suc (length (takeWhile (in_cset ic cs) u))]) \<Longrightarrow>
        take (length u - length (drop k u)) u = take k u" for k
  proof -
    assume "k \<in> set (rev [1 ..< Suc (length (takeWhile (in_cset ic cs) u))])"
    then have "k \<le> length (takeWhile (in_cset ic cs) u)" by auto
    also have "\<dots> \<le> length u" by (rule length_takeWhile_le)
    finally show ?thesis by simp
  qed
  then show ?thesis by (simp add: comp_def)
qed

lemma lit_group_head:
  "(case rmatch False (Seq (Lit l) (Grp n (Many1 (Neg ex)))) (Map.empty, s) of
      [] \<Rightarrow> A | (g, _) # _ \<Rightarrow> B g) =
     (if prefix l s \<and> takeWhile (\<lambda>x. x \<notin> set ex) (drop (length l) s) \<noteq> []
      then B [n \<mapsto> takeWhile (\<lambda>x. x \<notin> set ex) (drop (length l) s)] else A)"
proof -
  let ?u = "drop (length l) s"
  let ?P = "\<lambda>x. x \<notin> set ex"
  have P: "in_cset False (Neg ex) = ?P"
    by (rule ext) (simp add: in_cset_def)
  let ?n = "length (takeWhile ?P ?u)"
  have r: "rmatch False (Seq (Lit l) (Grp n (Many1 (Neg ex)))) (Map.empty, s) =
      (if prefix l s
       then map (\<lambda>k. ([n \<mapsto> take k ?u], drop k ?u)) (rev [1 ..< Suc ?n]) else [])"
  proof (cases "prefix l s")
    case True
    have "rmatch False (Seq (Lit l) (Grp n (Many1 (Neg ex)))) (Map.empty, s) =
        rmatch False (Grp n (Many1 (Neg ex))) (Map.empty, ?u)"
      by (simp only: rmatch.simps(5) rmatch_Lit_False True if_True list.map concat.simps
            append_Nil2)
    also have "\<dots> = map (\<lambda>k. ([n \<mapsto> take k ?u], drop k ?u)) (rev [1 ..< Suc ?n])"
      by (simp only: rmatch_group_many1 P)
    finally show ?thesis using True by (simp only: if_True)
  next
    case False
    then show ?thesis
      by (simp only: rmatch.simps(5) rmatch_Lit_False if_False list.map concat.simps)
  qed
  show ?thesis
  proof (cases "prefix l s \<and> ?n \<noteq> 0")
    case False
    then show ?thesis unfolding r by auto
  next
    case True
    then have n: "0 < ?n" by simp
    have t: "take ?n ?u = takeWhile ?P ?u"
      by (rule takeWhile_eq_take [symmetric])
    have ne: "takeWhile ?P ?u \<noteq> []" using n by simp
    show ?thesis
      unfolding r rev_upt_1 [OF n] using True ne by (simp add: t)
  qed
qed

lemma slug_head:
  "(case rmatch False slug_pattern (Map.empty, s) of [] \<Rightarrow> A | (g, _) # _ \<Rightarrow> B g) =
     (if slug_here s then B [1 \<mapsto> slug_of s] else A)"
proof -
  have "(\<lambda>x. x \<notin> set ''/'') = (\<lambda>x. x \<noteq> CHR ''/'')" by simp
  then show ?thesis
    unfolding slug_pattern_def lit_group_head slug_here_iff slug_of_def by (simp only:)
qed

lemma search_slug_Nil: "search False slug_pattern [] = None"
  by (simp only: search.simps) (subst slug_head, simp add: slug_here_def)

lemma search_slug_Cons:
  "search False slug_pattern (c # cs) =
     (if slug_here (c # cs) then Some [1 \<mapsto> slug_of (c # cs)] else search False slug_pattern cs)"
  by (simp only: search.simps) (subst slug_head, rule refl)

lemma search_slug_None:
  "search False slug_pattern s = None \<longleftrightarrow> (\<forall>pre t. s = pre @ t \<longrightarrow> \<not> slug_here t)"
proof (induction s)
  case Nil
  show ?case by (simp add: search_slug_Nil slug_here_def del: search.simps)
next
  case (Cons c cs)
  show ?case
  proof (cases "slug_here (c # cs)")
    case True
    then have "\<exists>pre t. c # cs = pre @ t \<and> slug_here t" by (metis append_Nil)
    with True show ?thesis by (simp add: search_slug_Cons del: search.simps)
  next
    case False
    have "(\<forall>pre t. c # cs = pre @ t \<longrightarrow> \<not> slug_here t) \<longleftrightarrow>
          (\<forall>pre t. cs = pre @ t \<longrightarrow> \<not> slug_here t)"
      using False by (auto simp: Cons_eq_append_conv)
    with False Cons.IH show ?thesis by (simp add: search_slug_Cons del: search.simps)
  qed
qed

lemma search_slug_Some:
  "search False slug_pattern s = Some m \<Longrightarrow>
   \<exists>pre t. s = pre @ t \<and> slug_here t \<and> m = [1 \<mapsto> slug_of t] \<and>
     (\<forall>pre' t'. s = pre' @ t' \<and> slug_here t' \<longrightarrow> length pre \<le> length pre')"
proof (induction s)
  case Nil
  then show ?case by (simp add: search_slug_Nil del: search.simps)
next
  case (Cons c cs)
  show ?case
  proof (cases "slug_here (c # cs)")
    case True
    with Cons.prems have "m = [1 \<mapsto> slug_of (c # cs)]" by (simp add: search_slug_Cons del: search.simps)
    with True have "c # cs = [] @ (c # cs) \<and> slug_here (c # cs) \<and> m = [1 \<mapsto> slug_of (c # cs)] \<and>
      (\<forall>pre' t'. c # cs = pre' @ t' \<and> slug_here t' \<longrightarrow> length ([] :: string) \<le> length pre')"
      by simp
    then show ?thesis by blast
  next
    case False
    with Cons.prems have "search False slug_pattern cs = Some m" by (simp add: search_slug_Cons del: search.simps)
    from Cons.IH [OF this] obtain pre t where p: "cs = pre @ t" "slug_here t" "m = [1 \<mapsto> slug_of t]"
      and least: "\<forall>pre' t'. cs = pre' @ t' \<and> slug_here t' \<longrightarrow> length pre \<le> length pre'"
      by blast
    have "\<forall>pre' t'. c # cs = pre' @ t' \<and> slug_here t' \<longrightarrow> length (c # pre) \<le> length pre'"
    proof (intro allI impI)
      fix pre' t' assume a: "c # cs = pre' @ t' \<and> slug_here t'"
      with False obtain q where "pre' = c # q" "cs = q @ t'"
        by (cases pre') auto
      with a least show "length (c # pre) \<le> length pre'" by simp
    qed
    with p have "c # cs = (c # pre) @ t \<and> slug_here t \<and> m = [1 \<mapsto> slug_of t] \<and>
      (\<forall>pre' t'. c # cs = pre' @ t' \<and> slug_here t' \<longrightarrow> length (c # pre) \<le> length pre')"
      by simp
    then show ?thesis by blast
  qed
qed

lemma slug_of_append: "slug_of (''/companies/'' @ u) = takeWhile (\<lambda>x. x \<noteq> CHR ''/'') u"
  by (simp add: slug_of_def)

lemma extract_company_slug_search:
  "extract_company_slug url =
     (case search False slug_pattern url of Some m \<Rightarrow> m 1 | None \<Rightarrow> None)"
  by (cases url) (simp_all add: extract_company_slug_def search_slug_Nil del: search.simps)

lemma extract_company_slug_None:
  "extract_company_slug url = None \<longleftrightarrow> (\<forall>pre t. url = pre @ t \<longrightarrow> \<not> slug_here t)"
proof (cases "search False slug_pattern url")
  case None
  then show ?thesis
    using search_slug_None [of url] by (simp add: extract_company_slug_search)
next
  case (Some m)
  from search_slug_Some [OF Some] obtain pre t where
    "url = pre @ t" "slug_here t" "m = [1 \<mapsto> slug_of t]" by blast
  with Some show ?thesis
    by (auto simp: extract_company_slug_search)
qed

lemma extract_company_slug_Some:
  assumes "extract_company_slug url = Some seg"
  shows "\<exists>pre t. url = pre @ t \<and> slug_here t \<and> seg = slug_of t \<and>
     (\<forall>pre' t'. url = pre' @ t' \<and> slug_here t' \<longrightarrow> length pre \<le> length pre')"
proof (cases "search False slug_pattern url")
  case None
  with assms show ?thesis by (simp add: extract_company_slug_search)
next
  case (Some m)
  from search_slug_Some [OF Some] obtain pre t where p: "url = pre @ t" "slug_here t"
    "m = [1 \<mapsto> slug_of t]"
    "\<forall>pre' t'. url = pre' @ t' \<and> slug_here t' \<longrightarrow> length pre \<le> length pre'" by blast
  with Some assms have "seg = slug_of t"
    by (simp add: extract_company_slug_search)
  with p show ?thesis by blast
qed

text \<open>
  Claim C7: \<open>extract_company_slug\<close> returns nothing for the empty string, and nothing
  exactly when no occurrence of \<open>/companies/\<close> in the link is followed by a character
  other than a slash; otherwise it returns the segment after the leftmost such
  occurrence: the characters that follow it up to the next slash or the end of the link.
  For the profile link of Blue it returns \<open>blue\<close>.
\<close>

theorem extract_company_slug_spec:
  "extract_company_slug [] = None \<and>
   (extract_company_slug url = None \<longleftrightarrow>
      \<not> (\<exists>pre c rest. url = pre @ ''/companies/'' @ c # rest \<and> c \<noteq> CHR ''/'')) \<and>
   (\<forall>seg. extract_company_slug url = Some seg \<longrightarrow>
      (\<exists>pre rest. url = pre @ ''/companies/'' @ seg @ rest \<and>
         seg \<noteq> [] \<and> CHR ''/'' \<notin> set seg \<and> (rest = [] \<or> hd rest = CHR ''/'') \<and>
         (\<forall>pre' c rest'. url = pre' @ ''/companies/'' @ c # rest' \<and> c \<noteq> CHR ''/'' \<longrightarrow>
            length pre \<le> length pre'))) \<and>
   extract_company_slug ''https://www.ycombinator.com/companies/blue'' = Some ''blue''"
proof (intro conjI allI impI)
  show "extract_company_slug [] = None"
    by (simp add: extract_company_slug_def)
next
  show "extract_company_slug url = None \<longleftrightarrow>
      \<not> (\<exists>pre c rest. url = pre @ ''/companies/'' @ c # rest \<and> c \<noteq> CHR ''/'')"
    unfolding extract_company_slug_None slug_here_def by blast
next
  fix seg assume "extract_company_slug url = Some seg"
  from extract_company_slug_Some [OF this] obtain pre t where p: "url = pre @ t" "slug_here t"
    "seg = slug_of t"
    and least: "\<forall>pre' t'. url = pre' @ t' \<and> slug_here t' \<longrightarrow> length pre \<le> length pre'"
    by blast
  from p(2) obtain c rest0 where t: "t = ''/companies/'' @ c # rest0" and c: "c \<noteq> CHR ''/''"
    unfolding slug_here_def by blast
  let ?P = "\<lambda>x. x \<noteq> CHR ''/''"
  let ?rest = "dropWhile ?P (c # rest0)"
  have seg: "seg = takeWhile ?P (c # rest0)"
    unfolding p(3) t by (rule slug_of_append)
  have 1: "url = pre @ ''/companies/'' @ seg @ ?rest"
    unfolding seg p(1) t by simp
  have 2: "seg \<noteq> []" using c by (simp add: seg)
  have 3: "CHR ''/'' \<notin> set seg"
    unfolding seg by (metis (mono_tags, lifting) set_takeWhileD)
  have 4: "?rest = [] \<or> hd ?rest = CHR ''/''"
    using hd_dropWhile [of ?P "c # rest0"] by blast
  have 5: "\<forall>pre' c rest'. url = pre' @ ''/companies/'' @ c # rest' \<and> c \<noteq> CHR ''/'' \<longrightarrow>
            length pre \<le> length pre'"
  proof (intro allI impI)
    fix pre' c' rest'
    assume a: "url = pre' @ ''/companies/'' @ c' # rest' \<and> c' \<noteq> CHR ''/''"
    then have "slug_here (''/companies/'' @ c' # rest')"
      unfolding slug_here_def by blast
    with a least show "length pre \<le> length pre'" by blast
  qed
  from 1 2 3 4 5
  show "\<exists>pre rest. url = pre @ ''/companies/'' @ seg @ rest \<and>
         seg \<noteq> [] \<and> CHR ''/'' \<notin> set seg \<and> (rest = [] \<or> hd rest = CHR ''/'') \<and>
         (\<forall>pre' c rest'. url = pre' @ ''/companies/'' @ c # rest' \<and> c \<noteq> CHR ''/'' \<longrightarrow>
            length pre \<le> length pre')"
    by blast
next
  show "extract_company_slug ''https://www.ycombinator.com/companies/blue'' = Some ''blue''"
    by code_simp
qed

text \<open>Claim C7 on a link that goes on after the slug.\<close>

theorem extract_company_slug_spec_witness:
  "extract_company_slug ''https://www.ycombinator.com/companies/blue/jobs'' = Some ''blue'' \<and>
   (\<exists>pre rest. ''https://www.ycombinator.com/companies/blue/jobs'' =
       pre @ ''/companies/'' @ ''blue'' @ rest \<and> (rest = [] \<or> hd rest = CHR ''/'')) \<and>
   extract_company_slug ''https://www.ycombinator.com/companies/blue'' = Some ''blue'' \<and>
   extract_company_slug [] = None"
proof -
  have e: "extract_company_slug ''https://www.ycombinator.com/companies/blue/jobs'' = Some ''blue''"
    by code_simp
  note s = extract_company_slug_spec [of "''https://www.ycombinator.com/companies/blue/jobs''"]
  from s e have "\<exists>pre rest. ''https://www.ycombinator.com/companies/blue/jobs'' =
       pre @ ''/companies/'' @ ''blue'' @ rest \<and> (rest = [] \<or> hd rest = CHR ''/'')"
    by blast
  with s e show ?thesis by blast
qed

section \<open>Funding mentions\<close>

lemma d36: "(of_char CHR ''$'' :: nat) = 36"
  by simp
lemma lower_ch_dollar: "lower_ch c = CHR ''$'' \<Longrightarrow> c = CHR ''$''"
proof -
  assume a: "lower_ch c = CHR ''$''"
  define n where "n = (of_char c :: nat)"
  show ?thesis
  proof (cases "65 \<le> n \<and> n \<le> 90")
    case True
    then have "lower_ch c = char_of (n + 32)"
      by (simp add: lower_ch_def n_def)
    with a have "char_of (n + 32) = CHR ''$''" by simp
    then have "(of_char (char_of (n + 32) :: char) :: nat) = of_char CHR ''$''"
      by (rule arg_cong)
    then have "(n + 32) mod 256 = 36"
      unfolding of_char_of d36 .
    moreover have "(n + 32) mod 256 = n + 32"
      using True by (intro mod_less) linarith
    ultimately show ?thesis using True by linarith
  next
    case False
    then have "lower_ch c = c" unfolding lower_ch_def n_def Let_def by (rule if_not_P)
    with a show ?thesis by simp
  qed
qed

lemma rmatch_Seq_iff:
  "(g', s') \<in> set (rmatch ic (Seq r1 r2) (g, s)) \<longleftrightarrow>
     (\<exists>g1 s1. (g1, s1) \<in> set (rmatch ic r1 (g, s)) \<and> (g', s') \<in> set (rmatch ic r2 (g1, s1)))"
  by auto

lemma rmatch_Lit_iff:
  "(g', s') \<in> set (rmatch ic (Lit l) (g, s)) \<longleftrightarrow>
     g' = g \<and> length l \<le> length s \<and> lit_eq ic (take (length l) s) l \<and> s' = drop (length l) s"
  by auto

lemma amount_dollar:
  assumes "(g1, s1) \<in> set (rmatch ic amount_rx (g0, w @ s1))"
  shows "prefix ''$'' w"
proof -
  let ?rest = "Seq (Many1 (Pos (digits @ ''.''))) (Opt (One (Pos ''MBK'')))"
  have a: "amount_rx = Seq (Lit ''$'') ?rest"
    by (simp add: amount_rx_def)
  from assms obtain g s where 1: "(g, s) \<in> set (rmatch ic (Lit ''$'') (g0, w @ s1))"
    and 2: "(g1, s1) \<in> set (rmatch ic ?rest (g, s))"
    unfolding a rmatch_Seq_iff by blast
  from 1 have l: "lit_eq ic (take 1 (w @ s1)) ''$''" and s: "s = drop 1 (w @ s1)"
    and n: "1 \<le> length (w @ s1)"
    unfolding rmatch_Lit_iff by simp_all
  from n obtain c t where ct: "w @ s1 = c # t" by (cases "w @ s1") auto
  have "lower_ch CHR ''$'' = CHR ''$''" by code_simp
  with l ct have "c = CHR ''$''"
    by (auto simp: lit_eq_def lower_def split: if_splits intro: lower_ch_dollar)
  from rmatch_consumes [OF 2] obtain v where "s = v @ s1" by blast
  with s ct have "w @ s1 = (c # v) @ s1" by simp
  then have "w = c # v" by (simp only: append_same_eq)
  with \<open>c = CHR ''$''\<close> show ?thesis by simp
qed

lemma round_no_dollar:
  assumes "(g1, s1) \<in> set (rmatch True r (g0, w @ s1))" and "\<not> can True r CHR ''$''"
  shows "CHR ''$'' \<notin> set w"
proof -
  from rmatch_consumes [OF assms(1)] obtain v where v: "w @ s1 = v @ s1"
    and c: "\<forall>c \<in> set v. can True r c" by blast
  from v have "w = v" by simp
  with c assms(2) show ?thesis by blast
qed

lemma can_round: "\<not> can True round_rx CHR ''$''" "\<not> can True round_rx_twice CHR ''$''"
  by code_simp+

lemma grp_patterns:
  "grp_of pattern1 1 = Some amount_rx" "grp_of pattern1 2 = Some round_rx_twice"
  "grp_of pattern2 1 = Some round_rx" "grp_of pattern2 2 = Some amount_rx"
  "grp_of pattern3 1 = Some amount_rx" "grp_of pattern3 2 = Some round_rx"
  by (simp_all add: pattern1_def pattern2_def pattern3_def amount_rx_def
        round_rx_def round_rx_twice_def series_rx_def)

lemma ngroups_patterns: "ngroups pattern1 = 2" "ngroups pattern2 = 2" "ngroups pattern3 = 2"
  by (simp_all add: pattern1_def pattern2_def pattern3_def amount_rx_def
        round_rx_def round_rx_twice_def series_rx_def)

lemma assign_amount_first:
  assumes "search True p text = Some m" "ngroups p = 2"
    "grp_of p 1 = Some amount_rx" "grp_of p 2 = Some r" "\<not> can True r CHR ''$''"
  shows "\<exists>round amount. assign_groups p m = Inr (Some round, Some amount) \<and>
           m 1 = Some amount \<and> m 2 = Some round \<and>
           prefix ''$'' amount \<and> CHR ''$'' \<notin> set round"
proof -
  from search_rmatch [OF assms(1)] obtain t s' where
    m: "(m, s') \<in> set (rmatch True p (Map.empty, t))" by blast
  from rmatch_group [OF assms(3) m] obtain a g0 g1 s1 where a: "m 1 = Some a"
    and ma: "(g1, s1) \<in> set (rmatch True amount_rx (g0, a @ s1))"
    by blast
  from ma have pa: "prefix ''$'' a" by (rule amount_dollar)
  from rmatch_group [OF assms(4) m] obtain b h0 h1 t1 where b: "m 2 = Some b"
    and mb: "(h1, t1) \<in> set (rmatch True r (h0, b @ t1))"
    by blast
  from mb assms(5) have nb: "CHR ''$'' \<notin> set b" by (rule round_no_dollar)
  from pa have "CHR ''$'' \<in> set a" by (auto simp: prefix_def)
  with a b pa nb assms(2) show ?thesis by (simp add: assign_groups_def)
qed

lemma assign_round_first:
  assumes "search True p text = Some m" "ngroups p = 2"
    "grp_of p 1 = Some r" "grp_of p 2 = Some amount_rx" "\<not> can True r CHR ''$''"
  shows "\<exists>round amount. assign_groups p m = Inr (Some round, Some amount) \<and>
           m 1 = Some round \<and> m 2 = Some amount \<and>
           prefix ''$'' amount \<and> CHR ''$'' \<notin> set round"
proof -
  from search_rmatch [OF assms(1)] obtain t s' where
    m: "(m, s') \<in> set (rmatch True p (Map.empty, t))" by blast
  from rmatch_group [OF assms(4) m] obtain a g0 g1 s1 where a: "m 2 = Some a"
    and ma: "(g1, s1) \<in> set (rmatch True amount_rx (g0, a @ s1))"
    by blast
  from ma have pa: "prefix ''$'' a" by (rule amount_dollar)
  from rmatch_group [OF assms(3) m] obtain b h0 h1 t1 where b: "m 1 = Some b"
    and mb: "(h1, t1) \<in> set (rmatch True r (h0, b @ t1))"
    by blast
  from mb assms(5) have nb: "CHR ''$'' \<notin> set b" by (rule round_no_dollar)
  with a b pa assms(2) show ?thesis by (simp add: assign_groups_def)
qed

lemmas assign_pattern1 =
  assign_amount_first [OF _ ngroups_patterns(1) grp_patterns(1) grp_patterns(2) can_round(2)]
lemmas assign_pattern2 =
  assign_round_first [OF _ ngroups_patterns(2) grp_patterns(3) grp_patterns(4) can_round(1)]
lemmas assign_pattern3 =
  assign_amount_first [OF _ ngroups_patterns(3) grp_patterns(5) grp_patterns(6) can_round(1)]

lemma parse_funding_info_cases:
  "parse_funding_info re_search text name =
     (case re_search pattern1 text of
        Some m \<Rightarrow> assign_groups pattern1 m
      | None \<Rightarrow>
         (case re_search pattern2 text of
            Some m \<Rightarrow> assign_groups pattern2 m
          | None \<Rightarrow>
             (case re_search pattern3 text of
                Some m \<Rightarrow> assign_groups pattern3 m
              | None \<Rightarrow> Inr (None, None))))"
  by (simp add: parse_funding_info_def patterns_def split: option.splits)

lemma parse_loop_first:
  assumes "\<forall>q \<in> set ps. re_search q text = None" "re_search p text = Some m"
  shows "parse_loop re_search (ps @ p # qs) text = assign_groups p m"
  using assms by (induction ps) simp_all

lemma ngroups_in_patterns: "p \<in> set patterns \<Longrightarrow> ngroups p = 2"
  by (auto simp: patterns_def ngroups_patterns)

text \<open>On a text of ASCII characters, where \<open>re.search\<close> is \<open>search True\<close>, the function
  never raises, and its result is either a round with an amount or two times \<open>None\<close>.\<close>

lemma parse_funding_info_ascii:
  "parse_funding_info (search True) text name = Inr (None, None) \<or>
   (\<exists>round amount. parse_funding_info (search True) text name = Inr (Some round, Some amount) \<and>
      prefix ''$'' amount \<and> CHR ''$'' \<notin> set round)"
  using assign_pattern1 [of "text"] assign_pattern2 [of "text"] assign_pattern3 [of "text"]
  unfolding parse_funding_info_cases
  by (cases "search True pattern1 text"; cases "search True pattern2 text";
      cases "search True pattern3 text") auto

lemma parse_funding_info_acme:
  "parse_funding_info (search True) ''Acme raised $2M in a seed round'' name =
     Inr (Some ''seed'', Some ''$2M'')"
proof -
  have "parse_loop (search True) patterns ''Acme raised $2M in a seed round'' =
      Inr (Some ''seed'', Some ''$2M'')"
    by code_simp
  then show ?thesis
    by (simp add: parse_funding_info_def)
qed

text \<open>
  Claim C8: \<open>parse_funding_info\<close> tries its three patterns in their order and the first
  that matches decides: when \<open>re.search\<close> finds the first pattern, or does not find the
  first and finds the second, or finds only the third, the result is made of the two
  groups of that match alone, and it is \<open>(None, None)\<close> when none is found. This holds
  for every text, whatever \<open>re.search\<close> (the parameter \<open>re_search\<close>) finds in it. Of the
  two groups of a match of one of the three patterns, a first group that starts with a
  dollar sign is the amount, and the second group is the round; a first group without a
  dollar sign is the round, and the second group is the amount. On a text of ASCII
  characters, where \<open>re.search\<close> under \<open>re.IGNORECASE\<close> is \<open>search True\<close>, the result is
  \<open>(None, None)\<close> or a round without a dollar sign and an amount that starts with one. For
  the sentence \<open>Acme raised $2M in a seed round\<close> the round is \<open>seed\<close> and the amount
  \<open>$2M\<close>.
\<close>

theorem parse_funding_info_spec:
  "(\<forall>m. re_search pattern1 text = Some m \<longrightarrow>
      parse_funding_info re_search text name = assign_groups pattern1 m) \<and>
   (\<forall>m. re_search pattern1 text = None \<and> re_search pattern2 text = Some m \<longrightarrow>
      parse_funding_info re_search text name = assign_groups pattern2 m) \<and>
   (\<forall>m. re_search pattern1 text = None \<and> re_search pattern2 text = None \<and>
        re_search pattern3 text = Some m \<longrightarrow>
      parse_funding_info re_search text name = assign_groups pattern3 m) \<and>
   (re_search pattern1 text = None \<and> re_search pattern2 text = None \<and>
      re_search pattern3 text = None \<longrightarrow>
      parse_funding_info re_search text name = Inr (None, None)) \<and>
   (\<forall>p m g1. p \<in> set patterns \<and> m 1 = Some g1 \<and> prefix ''$'' g1 \<longrightarrow>
      assign_groups p m = Inr (m 2, Some g1)) \<and>
   (\<forall>p m g1. p \<in> set patterns \<and> m 1 = Some g1 \<and> CHR ''$'' \<notin> set g1 \<longrightarrow>
      assign_groups p m = Inr (Some g1, m 2)) \<and>
   (ascii text \<longrightarrow>
      parse_funding_info (search True) text name = Inr (None, None) \<or>
      (\<exists>round amount.
         parse_funding_info (search True) text name = Inr (Some round, Some amount) \<and>
         prefix ''$'' amount \<and> CHR ''$'' \<notin> set round)) \<and>
   parse_funding_info (search True) ''Acme raised $2M in a seed round'' name =
     Inr (Some ''seed'', Some ''$2M'')"
proof (intro conjI allI impI)
  fix m assume "re_search pattern1 text = Some m"
  then show "parse_funding_info re_search text name = assign_groups pattern1 m"
    by (simp add: parse_funding_info_cases)
next
  fix m assume "re_search pattern1 text = None \<and> re_search pattern2 text = Some m"
  then show "parse_funding_info re_search text name = assign_groups pattern2 m"
    by (simp add: parse_funding_info_cases)
next
  fix m assume "re_search pattern1 text = None \<and> re_search pattern2 text = None \<and>
        re_search pattern3 text = Some m"
  then show "parse_funding_info re_search text name = assign_groups pattern3 m"
    by (simp add: parse_funding_info_cases)
next
  assume "re_search pattern1 text = None \<and> re_search pattern2 text = None \<and>
      re_search pattern3 text = None"
  then show "parse_funding_info re_search text name = Inr (None, None)"
    by (simp add: parse_funding_info_cases)
next
  fix p and m :: caps and g1 assume a: "p \<in> set patterns \<and> m 1 = Some g1 \<and> prefix ''$'' g1"
  then have "CHR ''$'' \<in> set g1" by (auto simp: prefix_def)
  with a show "assign_groups p m = Inr (m 2, Some g1)"
    by (simp add: assign_groups_def ngroups_in_patterns)
next
  fix p and m :: caps and g1 assume "p \<in> set patterns \<and> m 1 = Some g1 \<and> CHR ''$'' \<notin> set g1"
  then show "assign_groups p m = Inr (Some g1, m 2)"
    by (simp add: assign_groups_def ngroups_in_patterns)
next
  show "parse_funding_info (search True) text name = Inr (None, None) \<or>
      (\<exists>round amount.
         parse_funding_info (search True) text name = Inr (Some round, Some amount) \<and>
         prefix ''$'' amount \<and> CHR ''$'' \<notin> set round)"
    by (rule parse_funding_info_ascii)
next
  show "parse_funding_info (search True) ''Acme raised $2M in a seed round'' name =
     Inr (Some ''seed'', Some ''$2M'')"
    by (rule parse_funding_info_acme)
qed

text \<open>Claim C8 on four ASCII texts: one that the first pattern matches, one that only
  the second matches (the round is the first group), one that only the third matches,
  and one that none matches.\<close>

theorem parse_funding_info_spec_witness:
  "ascii ''Acme raised $2M in a seed round'' \<and>
   map_option (\<lambda>m. (m 1, m 2)) (search True pattern1 ''Acme raised $2M in a seed round'') =
     Some (Some ''$2M'', Some ''seed'') \<and>
   parse_funding_info (search True) ''Acme raised $2M in a seed round'' ''Acme'' =
     Inr (Some ''seed'', Some ''$2M'') \<and>
   Option.is_none (search True pattern1 ''a Series B round of $12.5M'') \<and>
   map_option (\<lambda>m. (m 1, m 2)) (search True pattern2 ''a Series B round of $12.5M'') =
     Some (Some ''Series B'', Some ''$12.5M'') \<and>
   parse_funding_info (search True) ''a Series B round of $12.5M'' ''Acme'' =
     Inr (Some ''Series B'', Some ''$12.5M'') \<and>
   Option.is_none (search True pattern1 ''$3M funding in pre-seed'') \<and>
   Option.is_none (search True pattern2 ''$3M funding in pre-seed'') \<and>
   map_option (\<lambda>m. (m 1, m 2)) (search True pattern3 ''$3M funding in pre-seed'') =
     Some (Some ''$3M'', Some ''pre-seed'') \<and>
   parse_funding_info (search True) ''$3M funding in pre-seed'' ''Acme'' =
     Inr (Some ''pre-seed'', Some ''$3M'') \<and>
   Option.is_none (search True pattern1 ''Acme makes rockets'') \<and>
   Option.is_none (search True pattern2 ''Acme makes rockets'') \<and>
   Option.is_none (search True pattern3 ''Acme makes rockets'') \<and>
   parse_funding_info (search True) ''Acme makes rockets'' ''Acme'' = Inr (None, None)"
proof -
  let ?t1 = "''Acme raised $2M in a seed round''"
  let ?t2 = "''a Series B round of $12.5M''"
  let ?t3 = "''$3M funding in pre-seed''"
  let ?t4 = "''Acme makes rockets''"
  have p: "pattern1 \<in> set patterns" "pattern2 \<in> set patterns" "pattern3 \<in> set patterns"
    by (simp_all add: patterns_def)
  have d: "prefix ''$'' ''$2M''" "CHR ''$'' \<notin> set ''Series B''" "prefix ''$'' ''$3M''"
    by simp_all
  have asc: "ascii ?t1"
    by code_simp
  have a: "map_option (\<lambda>m. (m 1, m 2)) (search True pattern1 ?t1) =
     Some (Some ''$2M'', Some ''seed'')"
    by code_simp
  then obtain m where m: "search True pattern1 ?t1 = Some m" "m 1 = Some ''$2M''"
    "m 2 = Some ''seed''"
    by auto
  note s1 = parse_funding_info_spec [of "search True" "''Acme raised $2M in a seed round''" "''Acme''"]
  have "parse_funding_info (search True) ?t1 ''Acme'' = assign_groups pattern1 m"
    using s1 m(1) by blast
  moreover have "assign_groups pattern1 m = Inr (m 2, Some ''$2M'')"
    using s1 p(1) m(2) d(1) by blast
  ultimately have 1: "parse_funding_info (search True) ?t1 ''Acme'' =
      Inr (Some ''seed'', Some ''$2M'')"
    using m(3) by simp
  have n: "Option.is_none (search True pattern1 ?t2)"
    by code_simp
  then have n': "search True pattern1 ?t2 = None"
    by (simp add: Option.is_none_def)
  have b: "map_option (\<lambda>m. (m 1, m 2)) (search True pattern2 ?t2) =
     Some (Some ''Series B'', Some ''$12.5M'')"
    by code_simp
  then obtain k where k: "search True pattern2 ?t2 = Some k" "k 1 = Some ''Series B''"
    "k 2 = Some ''$12.5M''"
    by auto
  note s2 = parse_funding_info_spec [of "search True" "''a Series B round of $12.5M''" "''Acme''"]
  have "parse_funding_info (search True) ?t2 ''Acme'' = assign_groups pattern2 k"
    using s2 n' k(1) by blast
  moreover have "assign_groups pattern2 k = Inr (Some ''Series B'', k 2)"
    using s2 p(2) k(2) d(2) by blast
  ultimately have 2: "parse_funding_info (search True) ?t2 ''Acme'' =
      Inr (Some ''Series B'', Some ''$12.5M'')"
    using k(3) by simp
  have c1: "Option.is_none (search True pattern1 ?t3)"
    by code_simp
  have c2: "Option.is_none (search True pattern2 ?t3)"
    by code_simp
  from c1 c2 have c': "search True pattern1 ?t3 = None" "search True pattern2 ?t3 = None"
    by (simp_all add: Option.is_none_def)
  have c: "map_option (\<lambda>m. (m 1, m 2)) (search True pattern3 ?t3) =
     Some (Some ''$3M'', Some ''pre-seed'')"
    by code_simp
  then obtain j where j: "search True pattern3 ?t3 = Some j" "j 1 = Some ''$3M''"
    "j 2 = Some ''pre-seed''"
    by auto
  note s3 = parse_funding_info_spec [of "search True" "''$3M funding in pre-seed''" "''Acme''"]
  have "parse_funding_info (search True) ?t3 ''Acme'' = assign_groups pattern3 j"
    using s3 c' j(1) by blast
  moreover have "assign_groups pattern3 j = Inr (j 2, Some ''$3M'')"
    using s3 p(3) j(2) d(3) by blast
  ultimately have 3: "parse_funding_info (search True) ?t3 ''Acme'' =
      Inr (Some ''pre-seed'', Some ''$3M'')"
    using j(3) by simp
  have e1: "Option.is_none (search True pattern1 ?t4)"
    by code_simp
  have e2: "Option.is_none (search True pattern2 ?t4)"
    by code_simp
  have e3: "Option.is_none (search True pattern3 ?t4)"
    by code_simp
  from e1 e2 e3 have e': "search True pattern1 ?t4 = None" "search True pattern2 ?t4 = None"
    "search True pattern3 ?t4 = None"
    by (simp_all add: Option.is_none_def)
  note s4 = parse_funding_info_spec [of "search True" "''Acme makes rockets''" "''Acme''"]
  have 4: "parse_funding_info (search True) ?t4 ''Acme'' = Inr (None, None)"
    using s4 e' by blast
  show ?thesis
    using asc a 1 n b 2 c1 c2 c 3 e1 e2 e3 4 by simp
qed

end
